theory Spec2Isabelle
  imports Complex_Main "HOL-Library.Sublist" "HOL-Library.List_Lexorder"
begin

section \<open>JavaScript strings\<close>

text \<open>
  A JavaScript string is a sequence of UTF-16 code units; a code unit is modelled as a
  natural number. \<open>str\<close> turns an ASCII literal into such a sequence.
\<close>

type_synonym jsstring = "nat list"

definition str :: "string \<Rightarrow> jsstring" where
  "str s = map of_char s"

text \<open>
  White space and line terminators of ECMAScript: the characters that
  \<^verbatim>\<open>String.prototype.trim\<close> removes, that the regular expression class
  \<^verbatim>\<open>\s\<close> matches and that \<^verbatim>\<open>parseFloat\<close> skips at the start.
\<close>

definition isWhiteSpace :: "nat \<Rightarrow> bool" where
  "isWhiteSpace c =
     (c \<in> {9, 10, 11, 12, 13, 32, 160, 5760, 8232, 8233, 8239, 8287, 12288, 65279}
      \<or> (8192 \<le> c \<and> c \<le> 8202))"

definition isDigit :: "nat \<Rightarrow> bool" where
  "isDigit c = (48 \<le> c \<and> c \<le> 57)"

definition trim :: "jsstring \<Rightarrow> jsstring" where
  "trim s = rev (dropWhile isWhiteSpace (rev (dropWhile isWhiteSpace s)))"

text \<open>
  \<^verbatim>\<open>String.prototype.toLowerCase\<close>. The letters A to Z are mapped to a to z; the case
  mappings of Unicode beyond ASCII are not modelled and such code units are left as they
  are. No theorem below depends on how a string is lowered.
\<close>

definition toLowerCase :: "jsstring \<Rightarrow> jsstring" where
  "toLowerCase s = map (\<lambda>c. if 65 \<le> c \<and> c \<le> 90 then c + 32 else c) s"

text \<open>\<^verbatim>\<open>s.includes(sub)\<close>: \<open>sub\<close> occurs in \<open>s\<close> as a contiguous run.\<close>

fun includesStr :: "jsstring \<Rightarrow> jsstring \<Rightarrow> bool" where
  "includesStr [] sub = (sub = [])"
| "includesStr (c # cs) sub = (prefix sub (c # cs) \<or> includesStr cs sub)"

text \<open>\<^verbatim>\<open>s.split(',')\<close>: the pieces between the commas, never an empty array.\<close>

fun split_comma :: "jsstring \<Rightarrow> jsstring list" where
  "split_comma [] = [[]]"
| "split_comma (c # cs) =
     (if c = 44 then [] # split_comma cs
      else (case split_comma cs of [] \<Rightarrow> [[c]] | p # ps \<Rightarrow> (c # p) # ps))"

fun digitsOf :: "nat \<Rightarrow> jsstring" where
  "digitsOf n = (if n < 10 then [48 + n] else digitsOf (n div 10) @ [48 + n mod 10])"

declare digitsOf.simps [simp del]

definition digitsValue :: "jsstring \<Rightarrow> nat" where
  "digitsValue ds = foldl (\<lambda>n c. 10 * n + (c - 48)) 0 ds"

section \<open>JavaScript numbers\<close>

text \<open>
  A Number is an IEEE 754 binary64 value. A finite value is kept as the rational it
  denotes; the sign of zero is not kept (the program never observes it: it divides by
  positive counts only and \<^verbatim>\<open>toFixed\<close> prints both zeros alike). Every arithmetic
  result goes through \<open>rnd64\<close>, rounding to the nearest binary64 value, ties to even,
  with gradual underflow and overflow to an infinity.
\<close>

datatype jsnum = NaN | PosInf | NegInf | Fin rat

definition pow2 :: "int \<Rightarrow> rat" where
  "pow2 k = (if 0 \<le> k then of_int (2 ^ nat k) else 1 / of_int (2 ^ nat (- k)))"

definition pow10 :: "int \<Rightarrow> rat" where
  "pow10 k = (if 0 \<le> k then of_int (10 ^ nat k) else 1 / of_int (10 ^ nat (- k)))"

text \<open>For \<open>a > 0\<close>, the integer \<open>e\<close> with \<open>2 ^ e \<le> a < 2 ^ (e + 1)\<close>.\<close>

function binadeUp :: "rat \<Rightarrow> int" where
  "binadeUp a = (if a < 2 then 0 else binadeUp (a / 2) + 1)"
  by pat_completeness auto
termination
proof (relation "measure (\<lambda>a. nat \<lfloor>a\<rfloor>)")
  show "wf (measure (\<lambda>a. nat \<lfloor>a\<rfloor>))" by simp
next
  fix a :: rat
  assume "\<not> a < 2"
  then have "a / 2 \<le> a - 1" by simp
  then have "\<lfloor>a / 2\<rfloor> \<le> \<lfloor>a - 1\<rfloor>" by (rule floor_mono)
  moreover from \<open>\<not> a < 2\<close> have "2 \<le> \<lfloor>a\<rfloor>" by (simp add: le_floor_iff)
  ultimately show "(a / 2, a) \<in> measure (\<lambda>a. nat \<lfloor>a\<rfloor>)" by simp
qed

declare binadeUp.simps [simp del]

definition binade :: "rat \<Rightarrow> int" where
  "binade a =
     (if 1 \<le> a then binadeUp a
      else let k = binadeUp (1 / a) in if pow2 (- k) \<le> a then - k else - k - 1)"

definition roundTiesToEven :: "rat \<Rightarrow> int" where
  "roundTiesToEven r = (let f = \<lfloor>r\<rfloor>; d = r - of_int f
     in if d < 1 / 2 then f else if 1 / 2 < d then f + 1 else if even f then f else f + 1)"

definition rnd64 :: "rat \<Rightarrow> jsnum" where
  "rnd64 q = (if q = 0 then Fin 0 else
     let a = \<bar>q\<bar>;
         e = max (binade a) (- 1022);
         m = roundTiesToEven (a / pow2 (e - 52));
         r = of_int m * pow2 (e - 52)
     in if 1024 \<le> e \<or> (e = 1023 \<and> m = 2 ^ 53) then (if 0 < q then PosInf else NegInf)
        else Fin (if 0 < q then r else - r))"

definition isNaN :: "jsnum \<Rightarrow> bool" where
  "isNaN x = (x = NaN)"

text \<open>\<^verbatim>\<open>x + y\<close> on Numbers.\<close>

fun js_add :: "jsnum \<Rightarrow> jsnum \<Rightarrow> jsnum" where
  "js_add NaN y = NaN"
| "js_add x NaN = NaN"
| "js_add PosInf NegInf = NaN"
| "js_add NegInf PosInf = NaN"
| "js_add PosInf y = PosInf"
| "js_add x PosInf = PosInf"
| "js_add NegInf y = NegInf"
| "js_add x NegInf = NegInf"
| "js_add (Fin a) (Fin b) = rnd64 (a + b)"

text \<open>
  \<^verbatim>\<open>x / n\<close> for a positive counter \<open>n\<close> (a counter incremented once per record is an
  exact Number, an array holding fewer than \<open>2 ^ 32\<close> elements).
\<close>

fun js_div :: "jsnum \<Rightarrow> nat \<Rightarrow> jsnum" where
  "js_div NaN n = NaN"
| "js_div PosInf n = PosInf"
| "js_div NegInf n = NegInf"
| "js_div (Fin a) n = rnd64 (a / of_nat n)"

text \<open>
  \<^verbatim>\<open>parseFloat\<close> on a string: leading white space is skipped, then the longest prefix
  that is a decimal literal (sign, \<^verbatim>\<open>Infinity\<close> or digits with an optional fraction and
  exponent) is read and what follows it is ignored; without such a prefix the result is
  \<open>NaN\<close>.
\<close>

definition startsWith :: "nat \<Rightarrow> jsstring \<Rightarrow> bool" where
  "startsWith c s = (case s of [] \<Rightarrow> False | x # _ \<Rightarrow> x = c)"

definition exponentPart :: "jsstring \<Rightarrow> int" where
  "exponentPart r =
     (if startsWith 101 r \<or> startsWith 69 r then
        (let cs = tl r;
             ds = takeWhile isDigit (if startsWith 45 cs \<or> startsWith 43 cs then tl cs else cs)
         in if ds = [] then 0
            else if startsWith 45 cs then - int (digitsValue ds) else int (digitsValue ds))
      else 0)"

definition parseFloat :: "jsstring \<Rightarrow> jsnum" where
  "parseFloat input =
     (let t = dropWhile isWhiteSpace input;
          neg = startsWith 45 t;
          u = (if startsWith 45 t \<or> startsWith 43 t then tl t else t)
      in if prefix (str ''Infinity'') u then (if neg then NegInf else PosInf)
         else
           let ip = takeWhile isDigit u;
               r1 = dropWhile isDigit u;
               fp = (if startsWith 46 r1 then takeWhile isDigit (tl r1) else []);
               r2 = (if startsWith 46 r1 then dropWhile isDigit (tl r1) else r1)
           in if ip = [] \<and> fp = [] then NaN
              else
                let mv = of_nat (digitsValue (ip @ fp)) * pow10 (exponentPart r2 - int (length fp))
                in rnd64 (if neg then - mv else mv))"

text \<open>\<^verbatim>\<open>parseFloat(v)\<close> for a field that may be undefined: the argument is converted
  to a string first, and \<^verbatim>\<open>"undefined"\<close> is no number.\<close>

definition parseFloat_field :: "jsstring option \<Rightarrow> jsnum" where
  "parseFloat_field v = parseFloat (case v of None \<Rightarrow> str ''undefined'' | Some s \<Rightarrow> s)"

text \<open>
  \<^verbatim>\<open>Number::toString\<close> for a finite \<open>x \<ge> 10 ^ 21\<close> (an integer): the digits are
  those of the integer with the fewest significant digits that rounds to \<open>x\<close>, the
  closest one if several do, and they are printed in exponent form.
\<close>

definition shortestRoundTrip :: "rat \<Rightarrow> nat" where
  "shortestRoundTrip x =
     (let i = nat \<lfloor>x\<rfloor>;
          d = length (digitsOf i);
          cand = (\<lambda>k. let u = 10 ^ (d - k); lo = (i div u) * u; hi = lo + u
                   in case filter (\<lambda>v. rnd64 (of_nat v) = Fin x) [lo, hi] of
                        [] \<Rightarrow> None
                      | [v] \<Rightarrow> Some v
                      | v # w # _ \<Rightarrow>
                          if x - of_nat v < of_nat w - x then Some v
                          else if of_nat w - x < x - of_nat v then Some w
                          else if even (v div u) then Some v else Some w)
      in case List.map_filter cand [1..<d + 1] of [] \<Rightarrow> i | v # _ \<Rightarrow> v)"

definition exponentForm :: "nat \<Rightarrow> jsstring" where
  "exponentForm v =
     (let ds = digitsOf v;
          sig = rev (dropWhile (\<lambda>c. c = 48) (rev ds))
      in (case sig of [] \<Rightarrow> [] | c # cs \<Rightarrow> if cs = [] then [c] else c # 46 # cs)
           @ str ''e+'' @ digitsOf (length ds - 1))"

definition numberToString :: "rat \<Rightarrow> jsstring" where
  "numberToString x = exponentForm (shortestRoundTrip x)"

text \<open>
  \<^verbatim>\<open>x.toFixed(f)\<close>: the integer \<open>n\<close> for which \<open>n / 10 ^ f\<close> is closest to \<open>x\<close> (the
  larger one at a tie), printed with \<open>f\<close> digits after the point; values from
  \<open>10 ^ 21\<close> on and the non-finite ones are printed as \<^verbatim>\<open>String(x)\<close> prints them.
\<close>

definition toFixed :: "nat \<Rightarrow> jsnum \<Rightarrow> jsstring" where
  "toFixed f x =
     (case x of
        NaN \<Rightarrow> str ''NaN''
      | PosInf \<Rightarrow> str ''Infinity''
      | NegInf \<Rightarrow> str ''-Infinity''
      | Fin q \<Rightarrow>
          (let s = (if q < 0 then [45] else []);
               a = \<bar>q\<bar>
           in if 10 ^ 21 \<le> a then s @ numberToString a
              else
                let m = digitsOf (nat \<lfloor>a * 10 ^ f + 1 / 2\<rfloor>);
                    m' = (if length m \<le> f then replicate (f + 1 - length m) 48 @ m else m)
                in s @ (if f = 0 then m
                        else take (length m' - f) m' @ [46] @ drop (length m' - f) m')))"

section \<open>Objects used as dictionaries\<close>

text \<open>
  The program keeps its tables in plain objects created by \<^verbatim>\<open>{}\<close>. Such an object
  has its own properties, listed by \<^verbatim>\<open>Object.entries\<close> and \<^verbatim>\<open>Object.values\<close> with
  the array-index keys first, in ascending order, and the other keys in the order of their
  creation; and a read of a key that is not an own property continues in
  \<^verbatim>\<open>Object.prototype\<close>, which has the properties named below.
\<close>

type_synonym 'v jsobject = "(jsstring \<times> 'v) list"

definition objectPrototypeNames :: "jsstring list" where
  "objectPrototypeNames = map str
     [''constructor'', ''__defineGetter__'', ''__defineSetter__'', ''hasOwnProperty'',
      ''__lookupGetter__'', ''__lookupSetter__'', ''isPrototypeOf'', ''propertyIsEnumerable'',
      ''toString'', ''valueOf'', ''__proto__'', ''toLocaleString'']"

datatype 'v property = Own 'v | Inherited jsstring | Missing

definition obj_get :: "'v jsobject \<Rightarrow> jsstring \<Rightarrow> 'v property" where
  "obj_get obj k =
     (case map_of obj k of
        Some v \<Rightarrow> Own v
      | None \<Rightarrow> if k \<in> set objectPrototypeNames then Inherited k else Missing)"

text \<open>An array index is the canonical decimal form of an integer below \<open>2 ^ 32 - 1\<close>.\<close>

definition isArrayIndex :: "jsstring \<Rightarrow> bool" where
  "isArrayIndex k =
     (k \<noteq> [] \<and> list_all isDigit k \<and> (k = [48] \<or> \<not> startsWith 48 k)
      \<and> digitsValue k < 2 ^ 32 - 1)"

fun insertIndexed :: "jsstring \<Rightarrow> 'v \<Rightarrow> 'v jsobject \<Rightarrow> 'v jsobject" where
  "insertIndexed k v [] = [(k, v)]"
| "insertIndexed k v ((k', v') # kvs) =
     (if isArrayIndex k' \<and> digitsValue k' < digitsValue k
      then (k', v') # insertIndexed k v kvs
      else (k, v) # (k', v') # kvs)"

fun replaceValue :: "jsstring \<Rightarrow> 'v \<Rightarrow> 'v jsobject \<Rightarrow> 'v jsobject" where
  "replaceValue k v [] = []"
| "replaceValue k v ((k', v') # kvs) =
     (if k' = k then (k, v) # kvs else (k', v') # replaceValue k v kvs)"

text \<open>\<^verbatim>\<open>obj[k] = v\<close> for a key other than \<^verbatim>\<open>__proto__\<close>: an own property keeps its
  place, a new one is created.\<close>

definition obj_set :: "'v jsobject \<Rightarrow> jsstring \<Rightarrow> 'v \<Rightarrow> 'v jsobject" where
  "obj_set obj k v =
     (if k \<in> fst ` set obj then replaceValue k v obj
      else if isArrayIndex k then insertIndexed k v obj
      else obj @ [(k, v)])"

section \<open>The data model\<close>

text \<open>A row of the CSV file: every column is a string, or undefined when the file has no
  such column.\<close>

record csvrecord =
  ID :: "jsstring option"
  NAME :: "jsstring option"
  COUNTRY :: "jsstring option"
  ARRESTED :: "jsstring option"
  CRIME_CATEGORIES :: "jsstring option"
  CONVICTED_OF :: "jsstring option"
  GANG_AFFILIATION :: "jsstring option"
  PICTURE_LOCAL :: "jsstring option"
  DEEPFACE_age :: "jsstring option"
  DEEPFACE_gender_dominant :: "jsstring option"
  DEEPFACE_race_dominant :: "jsstring option"
  DEEPFACE_emotion_dominant :: "jsstring option"

text \<open>The \<open>age\<close> of a person is a Number or \<^verbatim>\<open>null\<close> (\<open>None\<close>).\<close>

record person =
  id' :: "jsstring option"
  name :: "jsstring option"
  country :: "jsstring option"
  convictions :: "jsstring list"
  categories :: "jsstring list"
  gang :: jsstring
  mugshot :: jsstring
  age :: "jsnum option"
  gender :: jsstring
  race :: jsstring
  emotion :: jsstring

record coords =
  lat :: jsnum
  lng :: jsnum

record locationGroup = coords +
  location :: jsstring
  people :: "person list"

text \<open>A value of the tallies: a Number, or the string that a value which was no
  Number has become under \<^verbatim>\<open>+ 1\<close>.\<close>

datatype count = Num nat | Text jsstring

record stats =
  totalRecords :: nat
  totalMen :: nat
  totalWomen :: nat
  avgAge :: jsstring
  topCountries :: "count jsobject"
  topCategories :: "count jsobject"
  topGangs :: "count jsobject"
  raceDistribution :: "count jsobject"

record data =
  locations :: "locationGroup list"
  categories :: "jsstring list"
  stats :: stats

datatype jserror = TypeError | URIError | IOError

section \<open>parseGeocodeLocations: the table of coordinates\<close>

text \<open>
  The object \<^verbatim>\<open>locations\<close>: its own properties, and the object that an assignment to
  the key \<^verbatim>\<open>__proto__\<close> has made its prototype, if any (the setter inherited from
  \<^verbatim>\<open>Object.prototype\<close> takes the assigned \<^verbatim>\<open>{lat, lng}\<close> for the new prototype and
  creates no property).
\<close>

record geo =
  entries :: "coords jsobject"
  proto :: "coords option"

definition geo_set :: "geo \<Rightarrow> jsstring \<Rightarrow> coords \<Rightarrow> geo" where
  "geo_set g k c =
     (if k = str ''__proto__'' then g\<lparr>proto := Some c\<rparr>
      else g\<lparr>entries := obj_set (entries g) k c\<rparr>)"

text \<open>What \<^verbatim>\<open>locations[k]\<close> reads: a coordinate object, a Number (the \<^verbatim>\<open>lat\<close> or
  \<^verbatim>\<open>lng\<close> of a prototype set as above), another object (a function of
  \<^verbatim>\<open>Object.prototype\<close>, or that object itself) or \<^verbatim>\<open>undefined\<close>.\<close>

datatype lookup = Coords coords | NumberValue jsnum | OtherObject | Undefined

definition geo_get :: "geo \<Rightarrow> jsstring \<Rightarrow> lookup" where
  "geo_get g k =
     (case map_of (entries g) k of
        Some c \<Rightarrow> Coords c
      | None \<Rightarrow>
          (case proto g of
             Some c \<Rightarrow>
               if k = str ''lat'' then NumberValue (lat c)
               else if k = str ''lng'' then NumberValue (lng c)
               else if k = str ''__proto__'' then Coords c
               else if k \<in> set objectPrototypeNames then OtherObject
               else Undefined
           | None \<Rightarrow> if k \<in> set objectPrototypeNames then OtherObject else Undefined))"

fun truthy :: "lookup \<Rightarrow> bool" where
  "truthy (Coords c) = True"
| "truthy (NumberValue x) = (x \<noteq> NaN \<and> x \<noteq> Fin 0)"
| "truthy OtherObject = True"
| "truthy Undefined = False"

text \<open>
  The regular expression of \<^verbatim>\<open>parseGeocodeLocations\<close> is a sequence of literals,
  optional characters, repeated character classes and capture groups. \<open>run\<close> matches
  such a sequence at the start of a string as a backtracking matcher does: the
  alternatives of an item are tried in the order of its priority (a greedy item the longest
  first, a lazy one the shortest first), each with everything that follows it, and the
  first that succeeds is the match. It returns the captured groups and the rest of the
  string.
\<close>

datatype atom =
    Lit jsstring
  | Opt nat
  | Star "nat \<Rightarrow> bool"
  | Plus "nat \<Rightarrow> bool"
  | LazyPlus "nat \<Rightarrow> bool"
  | Open
  | Close

fun firstSome :: "'a option list \<Rightarrow> 'a option" where
  "firstSome [] = None"
| "firstSome (Some r # xs) = Some r"
| "firstSome (None # xs) = firstSome xs"

fun run :: "atom list \<Rightarrow> jsstring \<Rightarrow> jsstring list \<Rightarrow> jsstring list
    \<Rightarrow> (jsstring list \<times> jsstring) option" where
  "run [] s opens caps = Some (caps, s)"
| "run (Lit l # as) s opens caps =
     (if prefix l s then run as (drop (length l) s) opens caps else None)"
| "run (Opt c # as) s opens caps =
     firstSome [if startsWith c s then run as (tl s) opens caps else None, run as s opens caps]"
| "run (Star p # as) s opens caps =
     firstSome (map (\<lambda>k. run as (drop k s) opens caps) (rev [0..<Suc (length (takeWhile p s))]))"
| "run (Plus p # as) s opens caps =
     firstSome (map (\<lambda>k. run as (drop k s) opens caps) (rev [1..<Suc (length (takeWhile p s))]))"
| "run (LazyPlus p # as) s opens caps =
     firstSome (map (\<lambda>k. run as (drop k s) opens caps) [1..<Suc (length (takeWhile p s))])"
| "run (Open # as) s opens caps = run as s (s # opens) caps"
| "run (Close # as) s opens caps =
     (case opens of
        [] \<Rightarrow> None
      | b # bs \<Rightarrow> run as s bs (caps @ [take (length b - length s) b]))"

text \<open>The class of \<^verbatim>\<open>.\<close>: every code unit but the line terminators.\<close>

definition isDot :: "nat \<Rightarrow> bool" where
  "isDot c = (c \<notin> {10, 13, 8232, 8233})"

text \<open>
  The pattern at line 23 of the source. The three code units before \<^verbatim>\<open>\s*\<close> are
  those of the source file read as UTF-8: U+00E2, U+0153, U+201C.
\<close>

definition marker :: jsstring where
  "marker = [226, 339, 8220]"

definition number :: "atom list" where
  "number = [Open, Opt 45, Plus isDigit, Opt 46, Star isDigit, Close]"

definition regex :: "atom list" where
  "regex = [Lit marker, Star isWhiteSpace, Open, LazyPlus isDot, Close, Lit [58],
            Star isWhiteSpace, Lit [40]] @ number @ [Lit [44], Star isWhiteSpace] @ number
           @ [Lit [41]]"

lemma firstSome_in: "firstSome xs = Some r \<Longrightarrow> Some r \<in> set xs"
  by (induction xs rule: firstSome.induct) auto

lemma run_length: "run as s opens caps = Some (caps', rest) \<Longrightarrow> length rest \<le> length s"
proof (induction as arbitrary: s opens caps)
  case Nil
  then show ?case by simp
next
  case (Cons a as)
  show ?case
  proof (cases a)
    case (Lit l)
    with Cons.prems have "run as (drop (length l) s) opens caps = Some (caps', rest)"
      by (simp split: if_splits)
    from Cons.IH [OF this] show ?thesis by simp
  next
    case (Opt c)
    with Cons.prems have
      "Some (caps', rest) \<in> {if startsWith c s then run as (tl s) opens caps else None,
         run as s opens caps}"
      using firstSome_in by fastforce
    then consider "run as (tl s) opens caps = Some (caps', rest)"
      | "run as s opens caps = Some (caps', rest)"
      by (auto split: if_splits)
    then show ?thesis
    proof cases
      case 1
      from Cons.IH [OF this] show ?thesis by simp
    next
      case 2
      from Cons.IH [OF this] show ?thesis .
    qed
  next
    case (Star p)
    with Cons.prems obtain k where "run as (drop k s) opens caps = Some (caps', rest)"
      using firstSome_in by fastforce
    from Cons.IH [OF this] show ?thesis by simp
  next
    case (Plus p)
    with Cons.prems obtain k where "run as (drop k s) opens caps = Some (caps', rest)"
      using firstSome_in by fastforce
    from Cons.IH [OF this] show ?thesis by simp
  next
    case (LazyPlus p)
    with Cons.prems obtain k where "run as (drop k s) opens caps = Some (caps', rest)"
      using firstSome_in by fastforce
    from Cons.IH [OF this] show ?thesis by simp
  next
    case Open
    with Cons.prems have "run as s (s # opens) caps = Some (caps', rest)" by simp
    from Cons.IH [OF this] show ?thesis .
  next
    case Close
    with Cons.prems obtain b bs where
      "run as s bs (caps @ [take (length b - length s) b]) = Some (caps', rest)"
      by (auto split: list.splits)
    from Cons.IH [OF this] show ?thesis .
  qed
qed

lemma run_regex_shorter:
  assumes "run regex s [] [] = Some (caps, rest)"
  shows "length rest < length s"
proof -
  obtain as where re: "regex = Lit marker # as"
    by (simp add: regex_def)
  from assms have p: "prefix marker s"
    and r: "run as (drop (length marker) s) [] [] = Some (caps, rest)"
    unfolding re by (simp_all split: if_splits)
  from p have "length marker \<le> length s"
    by (rule prefix_length_le)
  moreover have "length marker = 3"
    by (simp add: marker_def)
  moreover from run_length [OF r] have "length rest \<le> length s - length marker"
    by simp
  ultimately show ?thesis by simp
qed

text \<open>
  The loop \<^verbatim>\<open>while ((match = regex.exec(content)) !== null)\<close> with the flag
  \<^verbatim>\<open>g\<close>: the pattern is tried at every position from the end of the last match on,
  and the search goes on after each match; it stops when no position is left.
\<close>

function execAll :: "jsstring \<Rightarrow> jsstring list list" where
  "execAll s =
     (case run regex s [] [] of
        Some (caps, rest) \<Rightarrow> caps # execAll rest
      | None \<Rightarrow> (case s of [] \<Rightarrow> [] | c # cs \<Rightarrow> execAll cs))"
  by pat_completeness auto
termination
  by (relation "measure length") (auto dest: run_regex_shorter)

declare execAll.simps [simp del]

text \<open>Lines 21 to 33: one assignment for each match, in the order of the text.\<close>

definition assign :: "geo \<Rightarrow> jsstring list \<Rightarrow> geo" where
  "assign locs match =
     (case match of
        [m1, m2, m3] \<Rightarrow>
          geo_set locs (toLowerCase (trim m1)) \<lparr>lat = parseFloat m2, lng = parseFloat m3\<rparr>
      | _ \<Rightarrow> locs)"

definition parseGeocodeLocations :: "jsstring \<Rightarrow> geo" where
  "parseGeocodeLocations content = foldl assign \<lparr>entries = [], proto = None\<rparr> (execAll content)"

section \<open>processData: one record\<close>

text \<open>\<^verbatim>\<open>v || ''\<close>, and the test \<^verbatim>\<open>if (v)\<close>, for a field \<open>v\<close> of a record.\<close>

definition orEmpty :: "jsstring option \<Rightarrow> jsstring" where
  "orEmpty v = (case v of None \<Rightarrow> [] | Some s \<Rightarrow> s)"

definition present :: "jsstring option \<Rightarrow> bool" where
  "present v = (case v of None \<Rightarrow> False | Some s \<Rightarrow> s \<noteq> [])"

text \<open>Lines 68 to 82: the coordinates of an arrest location.\<close>

definition defaultCoords :: coords where
  "defaultCoords = \<lparr>lat = rnd64 (398283 / 10000), lng = rnd64 (- 985795 / 10000)\<rparr>"

definition partialMatch :: "geo \<Rightarrow> jsstring \<Rightarrow> coords option" where
  "partialMatch locs arrestedLower =
     map_option snd
       (find (\<lambda>(key, value). includesStr arrestedLower key \<or> includesStr key arrestedLower)
          (entries locs))"

definition findCoordinates :: "geo \<Rightarrow> jsstring \<Rightarrow> lookup" where
  "findCoordinates locs arrested =
     (let arrestedLower = toLowerCase arrested;
          coords0 = geo_get locs arrestedLower;
          coords1 = (if \<not> truthy coords0
                     then (case partialMatch locs arrestedLower of
                             Some value \<Rightarrow> Coords value
                           | None \<Rightarrow> coords0)
                     else coords0)
      in if \<not> truthy coords1 then Coords defaultCoords else coords1)"

text \<open>Lines 84 to 106: the parser of the two list-like fields. (The \<^verbatim>\<open>try\<close> around it
  catches nothing: no step of it throws on a string.)\<close>

definition parsePseudoList :: "jsstring option \<Rightarrow> jsstring list" where
  "parsePseudoList field =
     (if present field
      then filter (\<lambda>c. c \<noteq> [])
             (map trim (split_comma (filter (\<lambda>c. c \<notin> {91, 93, 39}) (orEmpty field))))
      else [])"

text \<open>
  Lines 108 to 113. \<^verbatim>\<open>path.basename\<close> is the POSIX one: the last component of the
  path, trailing slashes aside. \<^verbatim>\<open>encodeURIComponent\<close> leaves the unreserved
  characters, writes every other code point as the escaped bytes of its UTF-8 form, and
  throws a URIError at a surrogate without its partner (\<open>None\<close>).
\<close>

definition basename :: "jsstring \<Rightarrow> jsstring" where
  "basename p = rev (takeWhile (\<lambda>c. c \<noteq> 47) (dropWhile (\<lambda>c. c = 47) (rev p)))"

definition isUnreserved :: "nat \<Rightarrow> bool" where
  "isUnreserved c =
     ((65 \<le> c \<and> c \<le> 90) \<or> (97 \<le> c \<and> c \<le> 122) \<or> isDigit c
      \<or> c \<in> {45, 95, 46, 33, 126, 42, 39, 40, 41})"

definition hexDigit :: "nat \<Rightarrow> nat" where
  "hexDigit n = (if n < 10 then 48 + n else 55 + n)"

definition escapeByte :: "nat \<Rightarrow> jsstring" where
  "escapeByte b = [37, hexDigit (b div 16), hexDigit (b mod 16)]"

definition utf8 :: "nat \<Rightarrow> nat list" where
  "utf8 cp =
     (if cp < 128 then [cp]
      else if cp < 2048 then [192 + cp div 64, 128 + cp mod 64]
      else if cp < 65536 then [224 + cp div 4096, 128 + cp div 64 mod 64, 128 + cp mod 64]
      else [240 + cp div 262144 mod 8, 128 + cp div 4096 mod 64, 128 + cp div 64 mod 64,
            128 + cp mod 64])"

definition isHighSurrogate :: "nat \<Rightarrow> bool" where
  "isHighSurrogate c = (55296 \<le> c \<and> c \<le> 56319)"

definition isLowSurrogate :: "nat \<Rightarrow> bool" where
  "isLowSurrogate c = (56320 \<le> c \<and> c \<le> 57343)"

fun encodeURIComponent :: "jsstring \<Rightarrow> jsstring option" where
  "encodeURIComponent [] = Some []"
| "encodeURIComponent [c] =
     (if isUnreserved c then Some [c]
      else if isHighSurrogate c \<or> isLowSurrogate c then None
      else Some (concat (map escapeByte (utf8 c))))"
| "encodeURIComponent (c # d # cs) =
     (if isUnreserved c then map_option ((#) c) (encodeURIComponent (d # cs))
      else if isLowSurrogate c then None
      else if isHighSurrogate c then
        (if isLowSurrogate d
         then map_option
                ((@) (concat (map escapeByte
                   (utf8 (65536 + (c - 55296) * 1024 + (d - 56320))))))
                (encodeURIComponent cs)
         else None)
      else map_option ((@) (concat (map escapeByte (utf8 c)))) (encodeURIComponent (d # cs)))"

definition mugshotPath :: "jsstring option \<Rightarrow> jsstring option" where
  "mugshotPath picture =
     (if present picture
      then map_option ((@) (str ''/mugshots/'')) (encodeURIComponent (basename (orEmpty picture)))
      else Some [])"

text \<open>Lines 126 to 138: the person pushed for a record, given its parsed lists and its
  mugshot path.\<close>

definition makePerson :: "csvrecord \<Rightarrow> jsstring \<Rightarrow> person" where
  "makePerson record mugshotPath' =
     \<lparr>id' = ID record,
      name = NAME record,
      country = COUNTRY record,
      convictions = parsePseudoList (CONVICTED_OF record),
      categories = parsePseudoList (CRIME_CATEGORIES record),
      gang = orEmpty (GANG_AFFILIATION record),
      mugshot = mugshotPath',
      age = (if present (DEEPFACE_age record)
             then Some (parseFloat_field (DEEPFACE_age record)) else None),
      gender = orEmpty (DEEPFACE_gender_dominant record),
      race = orEmpty (DEEPFACE_race_dominant record),
      emotion = orEmpty (DEEPFACE_emotion_dominant record)\<rparr>"

text \<open>
  \<^verbatim>\<open>counts[k] = (counts[k] || 0) + 1\<close>. A key that \<^verbatim>\<open>Object.prototype\<close> has reads as
  a function, or as that object itself for \<^verbatim>\<open>__proto__\<close>; adding 1 to it gives a
  string (the text is the one Node prints for a built-in function). The assignment stores
  it, except under \<^verbatim>\<open>__proto__\<close>, whose setter ignores a string.
\<close>

definition inheritedText :: "jsstring \<Rightarrow> jsstring" where
  "inheritedText k =
     (if k = str ''__proto__'' then str ''[object Object]''
      else str ''function '' @ (if k = str ''constructor'' then str ''Object'' else k)
           @ str ''() { [native code] }'')"

definition tally :: "count jsobject \<Rightarrow> jsstring \<Rightarrow> count jsobject" where
  "tally counts k =
     (case obj_get counts k of
        Own (Num n) \<Rightarrow> obj_set counts k (Num (n + 1))
      | Own (Text t) \<Rightarrow> obj_set counts k (Text (t @ str ''1''))
      | Missing \<Rightarrow> obj_set counts k (Num 1)
      | Inherited n \<Rightarrow>
          if k = str ''__proto__'' then counts
          else obj_set counts k (Text (inheritedText k @ str ''1'')))"

text \<open>The variables of \<^verbatim>\<open>processData\<close> that the loop over the records updates
  (lines 53 to 62). The Set \<^verbatim>\<open>allCategories\<close> is kept in insertion order.\<close>

record acc =
  locationGroups :: "locationGroup jsobject"
  allCategories :: "jsstring list"
  totalMen :: nat
  totalWomen :: nat
  totalWithAge :: nat
  totalAge :: jsnum
  countryCounts :: "count jsobject"
  gangCounts :: "count jsobject"
  categoryCounts :: "count jsobject"
  raceCounts :: "count jsobject"

definition set_add :: "jsstring list \<Rightarrow> jsstring \<Rightarrow> jsstring list" where
  "set_add xs x = (if x \<in> set xs then xs else xs @ [x])"

definition addCategory :: "jsstring \<Rightarrow> acc \<Rightarrow> acc" where
  "addCategory cat st =
     st\<lparr>allCategories := set_add (allCategories st) cat,
        categoryCounts := tally (categoryCounts st) cat\<rparr>"

text \<open>Line 116: the key of a coordinate object (and of the group made from it).\<close>

definition locationKey :: "'a coords_scheme \<Rightarrow> jsstring" where
  "locationKey c = toFixed 4 (lat c) @ [44] @ toFixed 4 (lng c)"

text \<open>Lines 115 to 138. \<open>None\<close> is the TypeError of \<^verbatim>\<open>.people.push\<close> on a value that
  has no \<^verbatim>\<open>people\<close>.\<close>

definition pushPerson ::
  "locationGroup jsobject \<Rightarrow> coords \<Rightarrow> jsstring \<Rightarrow> person \<Rightarrow> locationGroup jsobject option"
where
  "pushPerson groups c arrested p =
     (let key = locationKey c;
          groups1 = (case obj_get groups key of
                       Missing \<Rightarrow>
                         obj_set groups key
                           \<lparr>lat = lat c, lng = lng c, location = arrested, people = []\<rparr>
                     | _ \<Rightarrow> groups)
      in case obj_get groups1 key of
           Own g \<Rightarrow> Some (obj_set groups1 key (g\<lparr>people := people g @ [p]\<rparr>))
         | _ \<Rightarrow> None)"

text \<open>Lines 140 to 164.\<close>

definition updateStats :: "csvrecord \<Rightarrow> acc \<Rightarrow> acc" where
  "updateStats record st =
     (let gender' = DEEPFACE_gender_dominant record;
          st1 = (if gender' = Some (str ''Man'') then st\<lparr>acc.totalMen := acc.totalMen st + 1\<rparr>
                 else if gender' = Some (str ''Woman'')
                 then st\<lparr>acc.totalWomen := acc.totalWomen st + 1\<rparr>
                 else st);
          age' = parseFloat_field (DEEPFACE_age record);
          st2 = (if \<not> isNaN age'
                 then st1\<lparr>totalWithAge := totalWithAge st1 + 1,
                          totalAge := js_add (totalAge st1) age'\<rparr>
                 else st1);
          st3 = (if present (COUNTRY record)
                 then st2\<lparr>countryCounts := tally (countryCounts st2) (orEmpty (COUNTRY record))\<rparr>
                 else st2);
          gang' = GANG_AFFILIATION record;
          st4 = (if present gang' \<and> trim (orEmpty gang') \<noteq> []
                 then st3\<lparr>gangCounts := tally (gangCounts st3) (orEmpty gang')\<rparr>
                 else st3);
          race' = DEEPFACE_race_dominant record
      in if present race' \<and> trim (orEmpty race') \<noteq> []
         then st4\<lparr>raceCounts := tally (raceCounts st4) (orEmpty race')\<rparr>
         else st4)"

text \<open>
  The body of \<^verbatim>\<open>records.forEach\<close> (lines 64 to 165). It throws a URIError from
  \<^verbatim>\<open>encodeURIComponent\<close> (line 112), and a TypeError at line 116 when the value found
  for the coordinates is not a coordinate object (\<^verbatim>\<open>coords.lat\<close> is then undefined)
  or at line 126.
\<close>

definition processRecord :: "geo \<Rightarrow> acc \<Rightarrow> csvrecord \<Rightarrow> jserror + acc" where
  "processRecord locs st record =
     (let arrested = orEmpty (ARRESTED record);
          coords' = findCoordinates locs arrested;
          st1 = fold addCategory (parsePseudoList (CRIME_CATEGORIES record)) st
      in case mugshotPath (PICTURE_LOCAL record) of
           None \<Rightarrow> Inl URIError
         | Some mugshotPath' \<Rightarrow>
             (case coords' of
                Coords c \<Rightarrow>
                  (case pushPerson (locationGroups st1) c arrested
                          (makePerson record mugshotPath') of
                     None \<Rightarrow> Inl TypeError
                   | Some groups \<Rightarrow>
                       Inr (updateStats record (st1\<lparr>locationGroups := groups\<rparr>)))
              | _ \<Rightarrow> Inl TypeError))"

fun forEach :: "geo \<Rightarrow> csvrecord list \<Rightarrow> acc \<Rightarrow> jserror + acc" where
  "forEach locs [] st = Inr st"
| "forEach locs (record # records) st =
     (case processRecord locs st record of
        Inl e \<Rightarrow> Inl e
      | Inr st' \<Rightarrow> forEach locs records st')"

section \<open>processData: the result\<close>

text \<open>
  \<^verbatim>\<open>entries.sort((a, b) => b[1] - a[1])\<close>. The difference of two Numbers orders the
  entries by descending count; with a string on either side it is \<open>NaN\<close> (\<open>None\<close>), which
  \<^verbatim>\<open>sort\<close> reads as 0. The sort is stable, so that for counts that are all Numbers
  (and whenever every comparison gives 0) its result is the one computed here by
  insertion. When Numbers and strings are mixed otherwise the comparator is not
  consistent and ECMAScript leaves the order to the implementation: there the order of
  \<open>sortByCount\<close> is one possible order, and nothing below is drawn from it.
\<close>

definition compareCount :: "jsstring \<times> count \<Rightarrow> jsstring \<times> count \<Rightarrow> int option" where
  "compareCount a b =
     (case (snd a, snd b) of
        (Num x, Num y) \<Rightarrow> Some (int y - int x)
      | _ \<Rightarrow> None)"

definition notAfter :: "jsstring \<times> count \<Rightarrow> jsstring \<times> count \<Rightarrow> bool" where
  "notAfter a b = (case compareCount a b of None \<Rightarrow> True | Some v \<Rightarrow> v \<le> 0)"

fun insertSorted :: "jsstring \<times> count \<Rightarrow> count jsobject \<Rightarrow> count jsobject" where
  "insertSorted a [] = [a]"
| "insertSorted a (b # bs) = (if notAfter a b then a # b # bs else b # insertSorted a bs)"

definition sortByCount :: "count jsobject \<Rightarrow> count jsobject" where
  "sortByCount xs = foldr insertSorted xs []"

definition initialAcc :: acc where
  "initialAcc =
     \<lparr>locationGroups = [], allCategories = [], totalMen = 0, totalWomen = 0,
      totalWithAge = 0, totalAge = Fin 0, countryCounts = [], gangCounts = [],
      categoryCounts = [], raceCounts = []\<rparr>"

text \<open>Lines 167 to 195.\<close>

definition summarize :: "csvrecord list \<Rightarrow> acc \<Rightarrow> data" where
  "summarize records st =
     \<lparr>locations = map snd (locationGroups st),
      categories = sort (allCategories st),
      stats =
        \<lparr>totalRecords = length records,
         totalMen = acc.totalMen st,
         totalWomen = acc.totalWomen st,
         avgAge = (if totalWithAge st > 0
                   then toFixed 1 (js_div (totalAge st) (totalWithAge st))
                   else str ''N/A''),
         topCountries = take 20 (sortByCount (countryCounts st)),
         topCategories = sortByCount (categoryCounts st),
         topGangs = take 15 (sortByCount (gangCounts st)),
         raceDistribution = sortByCount (raceCounts st)\<rparr>\<rparr>"

text \<open>Lines 52 to 195 of \<^verbatim>\<open>processData\<close>, for the table and the records that its
  first two lines load.\<close>

definition aggregate :: "geo \<Rightarrow> csvrecord list \<Rightarrow> jserror + data" where
  "aggregate locs records =
     (case forEach locs records initialAcc of
        Inl e \<Rightarrow> Inl e
      | Inr st \<Rightarrow> Inr (summarize records st))"

text \<open>
  The two input files: the text of the geocode file, and the rows that the CSV library
  reads from the other one; \<open>None\<close> for a file that cannot be read or parsed (the call
  throws).
\<close>

record files =
  geocode_locations_txt :: "jsstring option"
  transformed_df_csv :: "csvrecord list option"

definition processData :: "files \<Rightarrow> jserror + data" where
  "processData fs =
     (case geocode_locations_txt fs of
        None \<Rightarrow> Inl IOError
      | Some content \<Rightarrow>
          (case transformed_df_csv fs of
             None \<Rightarrow> Inl IOError
           | Some records \<Rightarrow> aggregate (parseGeocodeLocations content) records))"

section \<open>The cache and the routes\<close>

record server =
  cachedData :: "data option"

definition getData :: "files \<Rightarrow> server \<Rightarrow> (jserror + data) \<times> server" where
  "getData fs sv =
     (case cachedData sv of
        Some d \<Rightarrow> (Inr d, sv)
      | None \<Rightarrow>
          (case processData fs of
             Inl e \<Rightarrow> (Inl e, sv)
           | Inr d \<Rightarrow> (Inr d, sv\<lparr>cachedData := Some d\<rparr>)))"

text \<open>
  \<^verbatim>\<open>req.query.category\<close>: undefined, a string, or the array or object that the query
  parser builds from a repeated or bracketed parameter.
\<close>

datatype query = Absent | Value jsstring | Structured

text \<open>Lines 220 to 229. An array or object is equal to no category string.\<close>

definition filterLocations :: "data \<Rightarrow> query \<Rightarrow> locationGroup list" where
  "filterLocations d category =
     (let selected = (\<lambda>matches.
            filter (\<lambda>loc. length (people loc) > 0)
              (map (\<lambda>loc. loc\<lparr>people := filter matches (people loc)\<rparr>) (locations d)))
      in case category of
           Absent \<Rightarrow> locations d
         | Value c \<Rightarrow>
             if c \<noteq> [] \<and> c \<noteq> str ''all''
             then selected (\<lambda>p. c \<in> set (person.categories p))
             else locations d
         | Structured \<Rightarrow> selected (\<lambda>p. False))"

datatype request = GetIndex | GetLocations query | GetStats

datatype response =
    Page "jsstring list" stats
  | LocationsJson "locationGroup list"
  | StatsJson stats
  | Failed jserror

definition handle :: "files \<Rightarrow> request \<Rightarrow> server \<Rightarrow> response \<times> server" where
  "handle fs req sv =
     (case getData fs sv of
        (Inl e, sv') \<Rightarrow> (Failed e, sv')
      | (Inr d, sv') \<Rightarrow>
          (case req of
             GetIndex \<Rightarrow> (Page (data.categories d) (stats d), sv')
           | GetLocations category \<Rightarrow> (LocationsJson (filterLocations d category), sv')
           | GetStats \<Rightarrow> (StatsJson (stats d), sv')))"

fun serve :: "files \<Rightarrow> request list \<Rightarrow> server \<Rightarrow> response list \<times> server" where
  "serve fs [] sv = ([], sv)"
| "serve fs (req # reqs) sv =
     (let (r, sv') = handle fs req sv; (rs, sv'') = serve fs reqs sv' in (r # rs, sv''))"

section \<open>Notions used to state the properties\<close>

text \<open>
  The coordinate object that lines 68 to 82 find for a record, if they find one; the
  person made from a record, unless its mugshot path throws; and the pair of strings
  that \<^verbatim>\<open>toFixed(4)\<close> prints for a coordinate pair, which is how the program rounds
  coordinates to four decimal places.
\<close>

definition resolved :: "geo \<Rightarrow> csvrecord \<Rightarrow> coords option" where
  "resolved locs record =
     (case findCoordinates locs (orEmpty (ARRESTED record)) of
        Coords c \<Rightarrow> Some c
      | _ \<Rightarrow> None)"

definition personOf :: "csvrecord \<Rightarrow> person option" where
  "personOf record = map_option (makePerson record) (mugshotPath (PICTURE_LOCAL record))"

definition roundedPair :: "'a coords_scheme \<Rightarrow> jsstring \<times> jsstring" where
  "roundedPair c = (toFixed 4 (lat c), toFixed 4 (lng c))"


text \<open>The number of people in all groups.\<close>

definition headcount :: "locationGroup jsobject \<Rightarrow> nat" where
  "headcount gs = sum_list (map (\<lambda>kg. length (people (snd kg))) gs)"


text \<open>The answer of a route for the data \<open>d\<close> held by the cache.\<close>

definition respond :: "data \<Rightarrow> request \<Rightarrow> response" where
  "respond d req =
     (case req of
        GetIndex \<Rightarrow> Page (data.categories d) (stats d)
      | GetLocations category \<Rightarrow> LocationsJson (filterLocations d category)
      | GetStats \<Rightarrow> StatsJson (stats d))"

text \<open>
  The groups that have at least one person whose categories contain the string \<open>c\<close>,
  each with its people restricted to those persons: the answer that the specification
  describes for the category \<open>c\<close>.
\<close>

definition matchingGroups :: "data \<Rightarrow> jsstring \<Rightarrow> locationGroup list" where
  "matchingGroups d c =
     map (\<lambda>g. g\<lparr>people := filter (\<lambda>p. c \<in> set (person.categories p)) (people g)\<rparr>)
       (filter (\<lambda>g. \<exists>p\<in>set (people g). c \<in> set (person.categories p)) (locations d))"

text \<open>
  The answer of \<^verbatim>\<open>GET /api/locations\<close> as claim C2 states it: everything when the
  parameter is omitted or is \<^verbatim>\<open>all\<close>, the matching groups otherwise.
\<close>

definition claimedLocations :: "data \<Rightarrow> query \<Rightarrow> locationGroup list" where
  "claimedLocations d category =
     (case category of
        Absent \<Rightarrow> locations d
      | Value c \<Rightarrow> if c = str ''all'' then locations d else matchingGroups d c
      | Structured \<Rightarrow> [])"

text \<open>
  A string parses as a number, for \<^verbatim>\<open>parseFloat\<close>, when after its leading white
  space and an optional sign it goes on with \<^verbatim>\<open>Infinity\<close>, with a digit, or with a
  point and a digit.
\<close>

definition hasNumberPrefix :: "jsstring \<Rightarrow> bool" where
  "hasNumberPrefix s =
     (let t = dropWhile isWhiteSpace s;
          u = (if startsWith 45 t \<or> startsWith 43 t then tl t else t)
      in prefix (str ''Infinity'') u
         \<or> (case u of
               [] \<Rightarrow> False
             | c # cs \<Rightarrow> isDigit c \<or> (c = 46 \<and> (case cs of [] \<Rightarrow> False | d # _ \<Rightarrow> isDigit d))))"

text \<open>The pieces of a split, put together again with commas.\<close>

fun joinComma :: "jsstring list \<Rightarrow> jsstring" where
  "joinComma [] = []"
| "joinComma [p] = p"
| "joinComma (p # q # ps) = p @ [44] @ joinComma (q # ps)"

text \<open>A key that \<^verbatim>\<open>Object.prototype\<close> does not have and that is no array index.\<close>

definition ordinaryKey :: "jsstring \<Rightarrow> bool" where
  "ordinaryKey k \<longleftrightarrow> k \<notin> set objectPrototypeNames \<and> \<not> isArrayIndex k"

section \<open>An example\<close>

text \<open>A geocode file of one line and three rows, two arrested at the place of the file
  (spelled in two ways) and one at a place that the file does not have.\<close>

definition emptyRecord :: csvrecord where
  "emptyRecord =
     \<lparr>ID = None, NAME = None, COUNTRY = None, ARRESTED = None, CRIME_CATEGORIES = None,
      CONVICTED_OF = None, GANG_AFFILIATION = None, PICTURE_LOCAL = None, DEEPFACE_age = None,
      DEEPFACE_gender_dominant = None, DEEPFACE_race_dominant = None,
      DEEPFACE_emotion_dominant = None\<rparr>"

definition sampleRecord :: "string \<Rightarrow> string \<Rightarrow> string \<Rightarrow> string \<Rightarrow> csvrecord" where
  "sampleRecord arrested country' age' categories' =
     emptyRecord\<lparr>ARRESTED := Some (str arrested), COUNTRY := Some (str country'),
       DEEPFACE_age := Some (str age'), CRIME_CATEGORIES := Some (str categories')\<rparr>"

definition exampleText :: jsstring where
  "exampleText = marker @ str '' Springfield: (39.8, -89.6)''"

definition springfield :: coords where
  "springfield =
     \<lparr>lat = Fin (2800676018271027 / 70368744177664),
      lng = Fin (- (3152519739159347 / 35184372088832))\<rparr>"

definition exampleTable :: geo where
  "exampleTable = \<lparr>entries = [(str ''springfield'', springfield)], proto = None\<rparr>"

definition record1 :: csvrecord where
  "record1 = sampleRecord ''Springfield'' ''Mexico'' ''30'' ''['Theft', 'Assault']''"

definition record2 :: csvrecord where
  "record2 = sampleRecord ''Unknown City'' ''Cuba'' ''31'' ''['Theft']''"

definition record3 :: csvrecord where
  "record3 = sampleRecord ''springfield'' ''Cuba'' ''abc'' []"

definition exampleRecords :: "csvrecord list" where
  "exampleRecords = [record1, record2, record3]"

text \<open>The state of the loop after each of the three rows, and the result.\<close>

definition acc1 :: acc where
  "acc1 = \<lparr>locationGroups = [(str ''39.8000,-89.6000'',
              \<lparr>lat = lat springfield, lng = lng springfield, location = str ''Springfield'',
               people = [makePerson record1 []]\<rparr>)],
            allCategories = [str ''Theft'', str ''Assault''],
            totalMen = 0, totalWomen = 0, totalWithAge = 1, totalAge = Fin 30,
            countryCounts = [(str ''Mexico'', Num 1)], gangCounts = [],
            categoryCounts = [(str ''Theft'', Num 1), (str ''Assault'', Num 1)], raceCounts = []\<rparr>"

definition acc2 :: acc where
  "acc2 = acc1\<lparr>locationGroups := locationGroups acc1 @ [(str ''39.8283,-98.5795'',
              \<lparr>lat = lat defaultCoords, lng = lng defaultCoords, location = str ''Unknown City'',
               people = [makePerson record2 []]\<rparr>)],
            totalWithAge := 2, totalAge := Fin 61,
            countryCounts := [(str ''Mexico'', Num 1), (str ''Cuba'', Num 1)],
            categoryCounts := [(str ''Theft'', Num 2), (str ''Assault'', Num 1)]\<rparr>"

definition acc3 :: acc where
  "acc3 = acc2\<lparr>locationGroups := [(str ''39.8000,-89.6000'',
              \<lparr>lat = lat springfield, lng = lng springfield, location = str ''Springfield'',
               people = [makePerson record1 [], makePerson record3 []]\<rparr>),
             (str ''39.8283,-98.5795'',
              \<lparr>lat = lat defaultCoords, lng = lng defaultCoords, location = str ''Unknown City'',
               people = [makePerson record2 []]\<rparr>)],
            countryCounts := [(str ''Mexico'', Num 1), (str ''Cuba'', Num 2)]\<rparr>"

definition exampleData :: data where
  "exampleData =
     \<lparr>locations =
        [\<lparr>lat = lat springfield, lng = lng springfield, location = str ''Springfield'',
          people = [makePerson record1 [], makePerson record3 []]\<rparr>,
         \<lparr>lat = lat defaultCoords, lng = lng defaultCoords, location = str ''Unknown City'',
          people = [makePerson record2 []]\<rparr>],
      categories = [str ''Assault'', str ''Theft''],
      stats =
        \<lparr>totalRecords = 3, totalMen = 0, totalWomen = 0, avgAge = str ''30.5'',
         topCountries = [(str ''Cuba'', Num 2), (str ''Mexico'', Num 1)],
         topCategories = [(str ''Theft'', Num 2), (str ''Assault'', Num 1)],
         topGangs = [], raceDistribution = []\<rparr>\<rparr>"

definition exampleFiles :: files where
  "exampleFiles =
     \<lparr>geocode_locations_txt = Some exampleText, transformed_df_csv = Some exampleRecords\<rparr>"

section \<open>Lemmas\<close>

subsection \<open>Objects, groups and the loop over the records\<close>

lemma replaceValue_absent: "k \<notin> fst ` set obj \<Longrightarrow> replaceValue k v obj = obj"
  by (induction obj) auto

lemma map_of_replaceValue:
  "k \<in> fst ` set obj \<Longrightarrow> map_of (replaceValue k v obj) = (map_of obj)(k \<mapsto> v)"
proof (induction obj)
  case Nil
  then show ?case by simp
next
  case (Cons kv obj)
  obtain k' v' where kv: "kv = (k', v')" by (cases kv)
  show ?case
  proof (cases "k' = k")
    case True
    then show ?thesis by (auto simp: kv fun_eq_iff)
  next
    case False
    with Cons.prems have "k \<in> fst ` set obj" by (auto simp: kv)
    from Cons.IH [OF this] False show ?thesis by (auto simp: kv fun_eq_iff)
  qed
qed


lemma map_of_insertIndexed:
  "map_of (insertIndexed k v obj) k = Some v"
  by (induction obj) auto

lemma map_of_insertIndexed_other:
  "x \<noteq> k \<Longrightarrow> map_of (insertIndexed k v obj) x = map_of obj x"
  by (induction obj) auto



lemma map_of_append_new:
  "k \<notin> fst ` set obj \<Longrightarrow> map_of (obj @ [(k, v)]) = (map_of obj)(k \<mapsto> v)"
  by (induction obj) (auto simp: fun_eq_iff)

lemma map_of_obj_set: "map_of (obj_set obj k v) = (map_of obj)(k \<mapsto> v)"
proof (cases "k \<in> fst ` set obj")
  case True
  then show ?thesis by (simp add: obj_set_def map_of_replaceValue)
next
  case False
  show ?thesis
  proof (cases "isArrayIndex k")
    case True
    with False show ?thesis
      by (auto simp: obj_set_def fun_eq_iff map_of_insertIndexed map_of_insertIndexed_other)
  next
    case no: False
    with False show ?thesis
      using map_of_append_new [of k obj v] by (simp add: obj_set_def del: map_of_append)
  qed
qed



lemma headcount_replaceValue:
  "map_of gs k = Some g \<Longrightarrow>
   headcount (replaceValue k g' gs) + length (people g) = headcount gs + length (people g')"
  by (induction gs) (auto simp: headcount_def)

lemma headcount_insertIndexed:
  "headcount (insertIndexed k g gs) = headcount gs + length (people g)"
  by (induction gs) (auto simp: headcount_def)

lemma headcount_obj_set_new:
  "k \<notin> fst ` set gs \<Longrightarrow> headcount (obj_set gs k g) = headcount gs + length (people g)"
  by (auto simp: obj_set_def headcount_insertIndexed) (simp add: headcount_def)

lemma headcount_obj_set_own:
  "map_of gs k = Some g \<Longrightarrow>
   headcount (obj_set gs k g') + length (people g) = headcount gs + length (people g')"
proof -
  assume m: "map_of gs k = Some g"
  then have "k \<in> fst ` set gs"
    by (metis fst_conv image_eqI map_of_SomeD)
  then have "obj_set gs k g' = replaceValue k g' gs"
    by (simp add: obj_set_def)
  with headcount_replaceValue [OF m, of g'] show ?thesis by simp
qed

lemma obj_get_Own: "obj_get obj k = Own v \<longleftrightarrow> map_of obj k = Some v"
  by (auto simp: obj_get_def split: option.splits)

lemma obj_get_Missing_notin: "obj_get obj k = Missing \<Longrightarrow> k \<notin> fst ` set obj"
  by (auto simp: obj_get_def map_of_eq_None_iff split: option.splits if_splits)

lemma pushPerson_headcount:
  assumes "pushPerson gs c a p = Some gs'"
  shows "headcount gs' = headcount gs + 1"
proof (cases "obj_get gs (locationKey c)")
  case (Own g)
  with assms have gs': "gs' = obj_set gs (locationKey c) (g\<lparr>people := people g @ [p]\<rparr>)"
    by (simp add: pushPerson_def Let_def)
  from Own have "map_of gs (locationKey c) = Some g"
    by (simp add: obj_get_Own)
  from headcount_obj_set_own [OF this, of "g\<lparr>people := people g @ [p]\<rparr>"]
  show ?thesis by (simp add: gs')
next
  case (Inherited n)
  with assms show ?thesis by (simp add: pushPerson_def Let_def)
next
  case Missing
  let ?new = "\<lparr>lat = lat c, lng = lng c, location = a, people = []\<rparr>"
  let ?gs1 = "obj_set gs (locationKey c) ?new"
  have own: "map_of ?gs1 (locationKey c) = Some ?new"
    by (simp add: map_of_obj_set)
  then have "obj_get ?gs1 (locationKey c) = Own ?new"
    by (simp add: obj_get_Own)
  with assms Missing have gs': "gs' = obj_set ?gs1 (locationKey c) (?new\<lparr>people := people ?new @ [p]\<rparr>)"
    by (simp add: pushPerson_def Let_def)
  have "headcount ?gs1 = headcount gs"
    using headcount_obj_set_new [OF obj_get_Missing_notin [OF Missing], of ?new] by simp
  with headcount_obj_set_own [OF own, of "?new\<lparr>people := people ?new @ [p]\<rparr>"]
  show ?thesis by (simp add: gs')
qed

lemma fold_addCategory_groups [simp]:
  "locationGroups (fold addCategory cats st) = locationGroups st"
  by (induction cats arbitrary: st) (auto simp: addCategory_def)

lemma updateStats_groups [simp]: "locationGroups (updateStats r st) = locationGroups st"
  by (simp add: updateStats_def Let_def)

lemma processRecord_headcount:
  assumes "processRecord locs st r = Inr st'"
  shows "headcount (locationGroups st') = headcount (locationGroups st) + 1"
  using assms
  by (auto simp: processRecord_def Let_def pushPerson_headcount
      split: option.splits lookup.splits)

lemma forEach_headcount:
  "forEach locs rs st = Inr st' \<Longrightarrow>
   headcount (locationGroups st') = headcount (locationGroups st) + length rs"
proof (induction rs arbitrary: st)
  case Nil
  then show ?case by simp
next
  case (Cons r rs)
  then obtain st1 where 1: "processRecord locs st r = Inr st1"
    and 2: "forEach locs rs st1 = Inr st'"
    by (auto split: sum.splits)
  from Cons.IH [OF 2] processRecord_headcount [OF 1] show ?case by simp
qed










lemma locationKey_group [simp]:
  "locationKey \<lparr>lat = x, lng = y, location = a, people = ps\<rparr> = locationKey \<lparr>lat = x, lng = y\<rparr>"
  by (simp add: locationKey_def)

lemma locationKey_people [simp]: "locationKey (g\<lparr>people := ps\<rparr>) = locationKey g"
  by (simp add: locationKey_def)

lemma locationKey_coords [simp]: "locationKey \<lparr>lat = lat c, lng = lng c\<rparr> = locationKey c"
  by (simp add: locationKey_def)




lemma prototype_names_no_comma: "k \<in> set objectPrototypeNames \<Longrightarrow> 44 \<notin> set k"
  by (auto simp: objectPrototypeNames_def str_def)

lemma locationKey_not_inherited: "locationKey c \<notin> set objectPrototypeNames"
proof
  assume "locationKey c \<in> set objectPrototypeNames"
  from prototype_names_no_comma [OF this] show False
    by (simp add: locationKey_def)
qed

lemma pushPerson_Some: "\<exists>gs'. pushPerson gs c a p = Some gs'"
proof (cases "obj_get gs (locationKey c)")
  case (Own g)
  then show ?thesis by (simp add: pushPerson_def Let_def)
next
  case (Inherited n)
  with locationKey_not_inherited [of c] show ?thesis
    by (simp add: obj_get_def split: option.splits if_splits)
next
  case Missing
  have "obj_get (obj_set gs (locationKey c) \<lparr>lat = lat c, lng = lng c, location = a, people = []\<rparr>)
          (locationKey c) = Own \<lparr>lat = lat c, lng = lng c, location = a, people = []\<rparr>"
    by (simp add: obj_get_Own map_of_obj_set)
  with Missing show ?thesis by (simp add: pushPerson_def Let_def)
qed

lemma processRecord_succeeds:
  assumes "resolved locs r = Some c" and "personOf r = Some p"
  shows "\<exists>st'. processRecord locs st r = Inr st'"
proof -
  from assms(1) have c: "findCoordinates locs (orEmpty (ARRESTED r)) = Coords c"
    by (simp add: resolved_def split: lookup.splits)
  from assms(2) obtain m where m: "mugshotPath (PICTURE_LOCAL r) = Some m"
    by (auto simp: personOf_def)
  obtain gs' where
    "pushPerson (locationGroups (fold addCategory (parsePseudoList (CRIME_CATEGORIES r)) st)) c
       (orEmpty (ARRESTED r)) (makePerson r m) = Some gs'"
    using pushPerson_Some by blast
  with c m show ?thesis by (simp add: processRecord_def Let_def)
qed

lemma processRecord_fails:
  assumes "resolved locs r = None \<or> personOf r = None"
  shows "\<exists>e. processRecord locs st r = Inl e"
  using assms
  by (auto simp: processRecord_def Let_def resolved_def personOf_def
      split: option.splits lookup.splits)

lemma forEach_succeeds:
  "\<forall>r\<in>set rs. resolved locs r \<noteq> None \<and> personOf r \<noteq> None \<Longrightarrow> \<exists>st'. forEach locs rs st = Inr st'"
proof (induction rs arbitrary: st)
  case Nil
  then show ?case by simp
next
  case (Cons r rs)
  then obtain c p where "resolved locs r = Some c" "personOf r = Some p" by auto
  from processRecord_succeeds [OF this] obtain st1 where "processRecord locs st r = Inr st1" ..
  moreover from Cons obtain st' where "forEach locs rs st1 = Inr st'" by fastforce
  ultimately show ?case by simp
qed

lemma forEach_fails:
  "r \<in> set rs \<Longrightarrow> resolved locs r = None \<or> personOf r = None \<Longrightarrow> \<exists>e. forEach locs rs st = Inl e"
proof (induction rs arbitrary: st)
  case Nil
  then show ?case by simp
next
  case (Cons r' rs)
  show ?case
  proof (cases "processRecord locs st r'")
    case (Inl e)
    then show ?thesis by simp
  next
    case (Inr st1)
    with processRecord_fails [of locs r' st] Cons.prems have "r \<in> set rs" by auto
    from Cons.IH [OF this Cons.prems(2)] Inr show ?thesis by simp
  qed
qed

lemma aggregate_succeeds_iff:
  "(\<exists>d. aggregate locs rs = Inr d) \<longleftrightarrow> (\<forall>r\<in>set rs. resolved locs r \<noteq> None \<and> personOf r \<noteq> None)"
proof
  assume "\<exists>d. aggregate locs rs = Inr d"
  then obtain st where st: "forEach locs rs initialAcc = Inr st"
    by (auto simp: aggregate_def split: sum.splits)
  show "\<forall>r\<in>set rs. resolved locs r \<noteq> None \<and> personOf r \<noteq> None"
  proof (rule ccontr)
    assume "\<not> ?thesis"
    then obtain r where "r \<in> set rs" "resolved locs r = None \<or> personOf r = None" by auto
    from forEach_fails [OF this, where st = initialAcc] st show False by auto
  qed
next
  assume "\<forall>r\<in>set rs. resolved locs r \<noteq> None \<and> personOf r \<noteq> None"
  from forEach_succeeds [OF this] obtain st where "forEach locs rs initialAcc = Inr st" ..
  then show "\<exists>d. aggregate locs rs = Inr d" by (simp add: aggregate_def)
qed


subsection \<open>Evaluating the loop\<close>

lemma str_eq_iff [simp]: "str a = str b \<longleftrightarrow> a = b"
proof -
  have "inj (of_char :: char \<Rightarrow> nat)"
    by (metis char_of_char injI)
  then show ?thesis
    by (simp add: str_def inj_map_eq_map)
qed

lemma str_Nil_iff [simp]: "str s = [] \<longleftrightarrow> s = []"
  by (simp add: str_def)

lemma Nil_str_iff [simp]: "[] = str s \<longleftrightarrow> s = []"
  by (simp add: str_def)

lemma isDigit_comma: "\<not> isDigit 44"
  by (simp add: isDigit_def)

lemma locationKey_not_index: "\<not> isArrayIndex (locationKey c)"
proof
  assume "isArrayIndex (locationKey c)"
  then have "list_all isDigit (locationKey c)" by (simp add: isArrayIndex_def)
  then have "isDigit 44" by (simp add: locationKey_def)
  with isDigit_comma show False ..
qed

lemma obj_get_ordinary:
  "k \<notin> set objectPrototypeNames \<Longrightarrow>
   obj_get obj k = (case map_of obj k of None \<Rightarrow> Missing | Some v \<Rightarrow> Own v)"
  by (simp add: obj_get_def split: option.splits)

lemma obj_set_ordinary:
  "\<not> isArrayIndex k \<Longrightarrow>
   obj_set obj k v = (case map_of obj k of None \<Rightarrow> obj @ [(k, v)] | Some w \<Rightarrow> replaceValue k v obj)"
  by (auto simp: obj_set_def map_of_eq_None_iff split: option.splits)
    (metis fst_conv image_eqI map_of_SomeD)

lemma replaceValue_last: "k \<notin> fst ` set obj \<Longrightarrow> replaceValue k v (obj @ [(k, w)]) = obj @ [(k, v)]"
  by (induction obj) auto

lemma pushPerson_eval:
  "pushPerson gs c a p =
     Some (case map_of gs (locationKey c) of
             None \<Rightarrow> gs @ [(locationKey c, \<lparr>lat = lat c, lng = lng c, location = a, people = [p]\<rparr>)]
           | Some g \<Rightarrow> replaceValue (locationKey c) (g\<lparr>people := people g @ [p]\<rparr>) gs)"
proof (cases "map_of gs (locationKey c)")
  case None
  let ?k = "locationKey c"
  let ?new = "\<lparr>lat = lat c, lng = lng c, location = a, people = []\<rparr>"
  from None have notin: "?k \<notin> fst ` set gs" by (simp add: map_of_eq_None_iff)
  from None have g0: "obj_get gs ?k = Missing"
    by (simp add: obj_get_ordinary locationKey_not_inherited)
  from None have s1: "obj_set gs ?k ?new = gs @ [(?k, ?new)]"
    by (simp add: obj_set_ordinary locationKey_not_index)
  have g1: "obj_get (gs @ [(?k, ?new)]) ?k = Own ?new"
    using notin by (simp add: obj_get_Own map_of_append_new del: map_of_append)
  have s2: "obj_set (gs @ [(?k, ?new)]) ?k v = gs @ [(?k, v)]" for v
    using notin by (simp add: obj_set_def replaceValue_last)
  show ?thesis
    unfolding pushPerson_def Let_def g0 by (simp add: s1 g1 s2 None del: map_of_append)
next
  case (Some g)
  then show ?thesis
    by (simp add: pushPerson_def Let_def obj_get_ordinary obj_set_ordinary
        locationKey_not_inherited locationKey_not_index)
qed

lemma tally_ordinary:
  assumes "ordinaryKey k"
  shows "tally counts k =
     (case map_of counts k of
        None \<Rightarrow> counts @ [(k, Num 1)]
      | Some (Num n) \<Rightarrow> replaceValue k (Num (n + 1)) counts
      | Some (Text t) \<Rightarrow> replaceValue k (Text (t @ str ''1'')) counts)"
proof -
  from assms have a: "k \<notin> set objectPrototypeNames" and b: "\<not> isArrayIndex k"
    by (simp_all add: ordinaryKey_def)
  show ?thesis
  proof (cases "map_of counts k")
    case None
    then show ?thesis
      by (simp add: tally_def obj_get_ordinary [OF a] obj_set_ordinary [OF b])
  next
    case (Some v)
    then show ?thesis
      by (cases v) (simp_all add: tally_def obj_get_ordinary [OF a] obj_set_ordinary [OF b])
  qed
qed

lemma processRecord_eval:
  assumes "resolved locs r = Some c" and "personOf r = Some p"
  shows "processRecord locs st r =
    Inr (updateStats r
      ((fold addCategory (parsePseudoList (CRIME_CATEGORIES r)) st)
         \<lparr>locationGroups :=
            (case map_of (locationGroups st) (locationKey c) of
               None \<Rightarrow> locationGroups st @
                 [(locationKey c,
                   \<lparr>lat = lat c, lng = lng c, location = orEmpty (ARRESTED r), people = [p]\<rparr>)]
             | Some g \<Rightarrow>
                 replaceValue (locationKey c) (g\<lparr>people := people g @ [p]\<rparr>) (locationGroups st))\<rparr>))"
proof -
  from assms(1) have c: "findCoordinates locs (orEmpty (ARRESTED r)) = Coords c"
    by (simp add: resolved_def split: lookup.splits)
  from assms(2) obtain m where m: "mugshotPath (PICTURE_LOCAL r) = Some m" "p = makePerson r m"
    by (auto simp: personOf_def)
  show ?thesis
    unfolding m(2) by (simp add: processRecord_def Let_def c m(1) pushPerson_eval)
qed

subsection \<open>The example, evaluated\<close>

lemma floor_rat_numeral [simp]:
  "\<lfloor>(numeral a :: rat) / numeral b\<rfloor> = numeral a div numeral b"
  using floor_divide_of_int_eq [of "numeral a" "numeral b", where ?'a = rat] by simp

lemma floor_rat_neg_numeral [simp]:
  "\<lfloor>- (numeral a :: rat) / numeral b\<rfloor> = - numeral a div numeral b"
  using floor_divide_of_int_eq [of "- numeral a" "numeral b", where ?'a = rat] by simp

lemmas rnd64_unfold = rnd64_def roundTiesToEven_def binade_def Let_def

lemmas parseFloat_unfold =
  parseFloat_def str_def isWhiteSpace_def startsWith_def isDigit_def exponentPart_def
  digitsValue_def pow10_def

lemma rnd64_39_8: "rnd64 (199 / 5) = Fin (2800676018271027 / 70368744177664)"
  unfolding rnd64_unfold by (simp add: binadeUp.simps pow2_def)

lemma rnd64_89_6: "rnd64 (- (448 / 5)) = Fin (- (3152519739159347 / 35184372088832))"
  unfolding rnd64_unfold by (simp add: binadeUp.simps pow2_def)

lemma rnd64_39_8283: "rnd64 (398283 / 10000) = Fin (2802667453731255 / 70368744177664)"
  unfolding rnd64_unfold by (simp add: binadeUp.simps pow2_def)

lemma rnd64_98_5795: "rnd64 (- (197159 / 2000)) = Fin (- (1734228904165507 / 17592186044416))"
  unfolding rnd64_unfold by (simp add: binadeUp.simps pow2_def)

lemma defaultCoords_value:
  "defaultCoords =
     \<lparr>lat = Fin (2802667453731255 / 70368744177664),
      lng = Fin (- (1734228904165507 / 17592186044416))\<rparr>"
  by (simp add: defaultCoords_def rnd64_39_8283 rnd64_98_5795)

lemma parseFloat_39_8: "parseFloat (str ''39.8'') = lat springfield"
  by (simp add: parseFloat_unfold rnd64_39_8 springfield_def)

lemma parseFloat_89_6: "parseFloat (str ''-89.6'') = lng springfield"
  by (simp add: parseFloat_unfold rnd64_89_6 springfield_def)

lemma example_match:
  "run regex exampleText [] [] = Some ([str ''Springfield'', str ''39.8'', str ''-89.6''], [])"
  by (simp add: exampleText_def regex_def marker_def number_def str_def isWhiteSpace_def
      isDot_def isDigit_def startsWith_def)

lemma run_regex_Nil: "run regex [] [] [] = None"
  by (simp add: regex_def marker_def)

lemma example_matches:
  "execAll exampleText = [[str ''Springfield'', str ''39.8'', str ''-89.6'']]"
  by (subst execAll.simps, simp add: example_match, subst execAll.simps,
      simp add: run_regex_Nil)

lemma key_springfield: "toLowerCase (trim (str ''Springfield'')) = str ''springfield''"
  by (simp add: str_def toLowerCase_def trim_def isWhiteSpace_def)

lemma example_table: "parseGeocodeLocations exampleText = exampleTable"
proof -
  have "\<not> isArrayIndex (str ''springfield'')"
    by (simp add: isArrayIndex_def str_def isDigit_def)
  moreover have "str ''springfield'' \<noteq> str ''__proto__''"
    by (simp add: str_def)
  ultimately show ?thesis
    by (simp add: parseGeocodeLocations_def example_matches assign_def geo_set_def obj_set_def
        key_springfield parseFloat_39_8 parseFloat_89_6 exampleTable_def)
qed

lemma resolved1: "resolved exampleTable record1 = Some springfield"
  by (simp add: resolved_def record1_def sampleRecord_def orEmpty_def findCoordinates_def
      exampleTable_def geo_get_def str_def toLowerCase_def)

lemma resolved2: "resolved exampleTable record2 = Some defaultCoords"
  by (simp add: resolved_def record2_def sampleRecord_def orEmpty_def findCoordinates_def
      exampleTable_def geo_get_def str_def toLowerCase_def objectPrototypeNames_def
      partialMatch_def)

lemma resolved3: "resolved exampleTable record3 = Some springfield"
  by (simp add: resolved_def record3_def sampleRecord_def orEmpty_def findCoordinates_def
      exampleTable_def geo_get_def str_def toLowerCase_def)

lemma rounded_springfield: "roundedPair springfield = (str ''39.8000'', str ''-89.6000'')"
  by (simp add: roundedPair_def springfield_def toFixed_def Let_def digitsOf.simps str_def)

lemma rounded_default: "roundedPair defaultCoords = (str ''39.8283'', str ''-98.5795'')"
  by (simp add: roundedPair_def defaultCoords_value toFixed_def Let_def digitsOf.simps str_def)

lemma example_persons: "r \<in> set exampleRecords \<Longrightarrow> personOf r = Some (makePerson r [])"
  by (auto simp: exampleRecords_def record1_def record2_def record3_def sampleRecord_def
      emptyRecord_def personOf_def mugshotPath_def present_def)

lemma example_succeeds: "\<exists>d. aggregate exampleTable exampleRecords = Inr d"
  unfolding aggregate_succeeds_iff
  using example_persons resolved1 resolved2 resolved3
  by (auto simp: exampleRecords_def)

lemma ordinary_examples:
  "ordinaryKey (str ''Mexico'')" "ordinaryKey (str ''Cuba'')"
  "ordinaryKey (str ''Theft'')" "ordinaryKey (str ''Assault'')"
  by (simp_all add: ordinaryKey_def objectPrototypeNames_def isArrayIndex_def str_def isDigit_def)

lemma key_springfield': "locationKey springfield = str ''39.8000,-89.6000''"
  using rounded_springfield by (simp add: locationKey_def roundedPair_def str_def)

lemma key_default: "locationKey defaultCoords = str ''39.8283,-98.5795''"
  using rounded_default by (simp add: locationKey_def roundedPair_def str_def)

lemma fields1:
  "CRIME_CATEGORIES record1 = Some (str ''['Theft', 'Assault']'')" "ARRESTED record1 = Some (str ''Springfield'')"
  "COUNTRY record1 = Some (str ''Mexico'')" "DEEPFACE_age record1 = Some (str ''30'')"
  "GANG_AFFILIATION record1 = None" "DEEPFACE_gender_dominant record1 = None" "DEEPFACE_race_dominant record1 = None"
  by (simp_all add: record1_def sampleRecord_def emptyRecord_def)

lemma fields2:
  "CRIME_CATEGORIES record2 = Some (str ''['Theft']'')" "ARRESTED record2 = Some (str ''Unknown City'')"
  "COUNTRY record2 = Some (str ''Cuba'')" "DEEPFACE_age record2 = Some (str ''31'')"
  "GANG_AFFILIATION record2 = None" "DEEPFACE_gender_dominant record2 = None" "DEEPFACE_race_dominant record2 = None"
  by (simp_all add: record2_def sampleRecord_def emptyRecord_def)

lemma fields3:
  "CRIME_CATEGORIES record3 = Some []" "ARRESTED record3 = Some (str ''springfield'')"
  "COUNTRY record3 = Some (str ''Cuba'')" "DEEPFACE_age record3 = Some (str ''abc'')"
  "GANG_AFFILIATION record3 = None" "DEEPFACE_gender_dominant record3 = None" "DEEPFACE_race_dominant record3 = None"
  by (simp_all add: record3_def sampleRecord_def emptyRecord_def str_def)

lemma lists_examples:
  "parsePseudoList (Some (str ''['Theft', 'Assault']'')) = [str ''Theft'', str ''Assault'']"
  "parsePseudoList (Some (str ''['Theft']'')) = [str ''Theft'']"
  "parsePseudoList (Some []) = []"
  by (simp_all add: parsePseudoList_def present_def orEmpty_def trim_def str_def isWhiteSpace_def)

lemma ages_examples:
  "parseFloat_field (Some (str ''30'')) = Fin 30"
  "parseFloat_field (Some (str ''31'')) = Fin 31"
  "parseFloat_field (Some (str ''abc'')) = NaN"
proof -
  have "rnd64 30 = Fin 30" "rnd64 31 = Fin 31"
    unfolding rnd64_unfold by (simp_all add: binadeUp.simps pow2_def)
  then show "parseFloat_field (Some (str ''30'')) = Fin 30"
    "parseFloat_field (Some (str ''31'')) = Fin 31"
    "parseFloat_field (Some (str ''abc'')) = NaN"
    by (simp_all add: parseFloat_field_def parseFloat_unfold)
qed

lemma rnd64_30: "rnd64 30 = Fin 30"
  unfolding rnd64_unfold by (simp add: binadeUp.simps pow2_def)

lemma step1: "processRecord exampleTable initialAcc record1 = Inr acc1"
  using example_persons [of record1]
  by (simp add: processRecord_eval [OF resolved1] exampleRecords_def fields1 lists_examples
      addCategory_def set_add_def initialAcc_def tally_ordinary ordinary_examples
      key_springfield' updateStats_def ages_examples isNaN_def present_def orEmpty_def
      acc1_def rnd64_30)

lemma rnd64_61: "rnd64 61 = Fin 61"
  unfolding rnd64_unfold by (simp add: binadeUp.simps pow2_def)

lemma rnd64_61_2: "rnd64 (61 / 2) = Fin (61 / 2)"
  unfolding rnd64_unfold by (simp add: binadeUp.simps pow2_def)

lemma step2: "processRecord exampleTable acc1 record2 = Inr acc2"
  using example_persons [of record2]
  by (simp add: processRecord_eval [OF resolved2] exampleRecords_def fields2 lists_examples
      addCategory_def set_add_def tally_ordinary ordinary_examples
      key_default updateStats_def ages_examples isNaN_def present_def orEmpty_def
      acc1_def acc2_def rnd64_61)

lemma step3: "processRecord exampleTable acc2 record3 = Inr acc3"
  using example_persons [of record3]
  by (simp add: processRecord_eval [OF resolved3] exampleRecords_def fields3 lists_examples
      addCategory_def set_add_def tally_ordinary ordinary_examples
      key_springfield' updateStats_def ages_examples isNaN_def present_def orEmpty_def
      acc1_def acc2_def acc3_def)

lemma avg_example: "toFixed 1 (Fin (61 / 2)) = str ''30.5''"
  by (simp add: toFixed_def Let_def digitsOf.simps str_def)

lemma order_example: "\<not> str ''Theft'' \<le> str ''Assault''"
  by (simp add: str_def)

lemma example_loop: "forEach exampleTable exampleRecords initialAcc = Inr acc3"
  by (simp add: exampleRecords_def step1 step2 step3)

lemma example_summary: "summarize exampleRecords acc3 = exampleData"
  by (simp add: exampleRecords_def summarize_def acc3_def acc2_def acc1_def rnd64_61_2
      avg_example [simplified] order_example sortByCount_def notAfter_def compareCount_def
      exampleData_def)

lemma example_run: "aggregate exampleTable exampleRecords = Inr exampleData"
  by (simp add: aggregate_def example_loop example_summary)

subsection \<open>The cache, the filter and the parsers\<close>

lemma getData_cached: "cachedData sv = Some d \<Longrightarrow> getData fs sv = (Inr d, sv)"
  by (simp add: getData_def)

lemma handle_cached: "cachedData sv = Some d \<Longrightarrow> handle fs req sv = (respond d req, sv)"
  by (simp add: handle_def getData_cached respond_def split: request.splits)

lemma serve_cached: "cachedData sv = Some d \<Longrightarrow> serve fs reqs sv = (map (respond d) reqs, sv)"
  by (induction reqs) (simp_all add: handle_cached)

lemma getData_stores:
  assumes "getData fs sv = (Inr d, sv')"
  shows "cachedData sv' = Some d"
    and "cachedData sv = None \<Longrightarrow> processData fs = Inr d \<and> sv' = sv\<lparr>cachedData := Some d\<rparr>"
    and "cachedData sv \<noteq> None \<Longrightarrow> sv' = sv"
  using assms by (auto simp: getData_def split: option.splits sum.splits)

lemma filter_map_people:
  "filter (\<lambda>loc. people loc \<noteq> []) (map (\<lambda>loc. loc\<lparr>people := filter m (people loc)\<rparr>) gs)
   = map (\<lambda>g. g\<lparr>people := filter m (people g)\<rparr>) (filter (\<lambda>g. \<exists>p\<in>set (people g). m p) gs)"
  by (induction gs) (auto simp: filter_empty_conv)

lemma rnd64_not_NaN: "rnd64 q \<noteq> NaN"
  by (simp add: rnd64_def Let_def)

lemma takeWhile_Nil_iff: "takeWhile P xs = [] \<longleftrightarrow> (case xs of [] \<Rightarrow> True | x # _ \<Rightarrow> \<not> P x)"
  by (cases xs) auto

lemma parseFloat_NaN_iff: "parseFloat s = NaN \<longleftrightarrow> \<not> hasNumberPrefix s"
proof -
  define t where "t = dropWhile isWhiteSpace s"
  define u where "u = (if startsWith 45 t \<or> startsWith 43 t then tl t else t)"
  show ?thesis
  proof (cases "prefix (str ''Infinity'') u")
    case True
    then show ?thesis
      unfolding parseFloat_def hasNumberPrefix_def Let_def t_def [symmetric] u_def [symmetric]
      by simp
  next
    case False
    have "(takeWhile isDigit u = [] \<and>
           (if startsWith 46 (dropWhile isDigit u) then takeWhile isDigit (tl (dropWhile isDigit u)) else []) = [])
        \<longleftrightarrow> \<not> (case u of [] \<Rightarrow> False
                 | c # cs \<Rightarrow> isDigit c \<or> (c = 46 \<and> (case cs of [] \<Rightarrow> False | d # _ \<Rightarrow> isDigit d)))"
      by (cases u) (auto simp: startsWith_def takeWhile_Nil_iff isDigit_def split: list.splits)
    with False show ?thesis
      unfolding parseFloat_def hasNumberPrefix_def Let_def t_def [symmetric] u_def [symmetric]
      by (simp add: rnd64_not_NaN)
  qed
qed

lemma split_comma_nonempty: "split_comma s \<noteq> []"
  by (induction s) (auto split: list.splits)

lemma join_split_comma: "joinComma (split_comma s) = s"
proof (induction s)
  case Nil
  then show ?case by simp
next
  case (Cons c s)
  obtain p ps where ps: "split_comma s = p # ps"
    using split_comma_nonempty [of s] by (cases "split_comma s") auto
  with Cons show ?case by (cases ps) auto
qed

lemma split_comma_no_comma: "p \<in> set (split_comma s) \<Longrightarrow> 44 \<notin> set p"
proof (induction s arbitrary: p)
  case Nil
  then show ?case by simp
next
  case (Cons c s)
  obtain q qs where qs: "split_comma s = q # qs"
    using split_comma_nonempty [of s] by (cases "split_comma s") auto
  with Cons show ?case by (auto split: if_splits)
qed

lemma split_comma_subset: "p \<in> set (split_comma s) \<Longrightarrow> set p \<subseteq> set s"
proof (induction s arbitrary: p)
  case Nil
  then show ?case by simp
next
  case (Cons c s)
  obtain q qs where qs: "split_comma s = q # qs"
    using split_comma_nonempty [of s] by (cases "split_comma s") auto
  from Cons.IH have ih: "\<forall>p'\<in>set (split_comma s). set p' \<subseteq> set s" by blast
  show ?case
  proof (cases "c = 44")
    case True
    with Cons.prems ih show ?thesis by auto
  next
    case False
    with Cons.prems qs have "p = c # q \<or> p \<in> set qs" by simp
    with ih qs show ?thesis by auto
  qed
qed

lemma trim_subset: "set (trim s) \<subseteq> set s"
  by (auto simp: trim_def dest!: set_dropWhileD)

lemma trim_ends:
  "trim s \<noteq> [] \<Longrightarrow> \<not> isWhiteSpace (hd (trim s)) \<and> \<not> isWhiteSpace (last (trim s))"
proof -
  assume ne: "trim s \<noteq> []"
  define a where "a = dropWhile isWhiteSpace s"
  define b where "b = dropWhile isWhiteSpace (rev a)"
  have t: "trim s = rev b" by (simp add: trim_def a_def b_def)
  with ne have bne: "b \<noteq> []" by simp
  then have "\<not> isWhiteSpace (hd b)"
    unfolding b_def using hd_dropWhile by blast
  then have l: "\<not> isWhiteSpace (last (trim s))"
    using bne by (simp add: t last_rev)
  from bne have ane: "a \<noteq> []" unfolding b_def by auto
  then have ha: "\<not> isWhiteSpace (hd a)"
    unfolding a_def using hd_dropWhile by blast
  have "rev a = takeWhile isWhiteSpace (rev a) @ b"
    by (simp add: b_def)
  then have "a = rev b @ rev (takeWhile isWhiteSpace (rev a))"
    by (metis rev_append rev_rev_ident)
  with bne have "hd (rev b) = hd a"
    by (metis hd_append2 rev_is_Nil_conv)
  with ha l show ?thesis by (simp add: t)
qed

section \<open>C1: every record is placed in exactly one group\<close>

text \<open>
  Claim C1. Whenever the aggregation of a geocode table and a sequence of records returns
  its result (it returns one unless a record makes the loop throw, see
  \<open>aggregate_succeeds_iff\<close>), the numbers of people of all location groups of the result
  add up to the number of records.
\<close>

theorem aggregate_places_every_record:
  assumes "aggregate locs records = Inr d"
  shows "sum_list (map (\<lambda>g. length (people g)) (locations d)) = length records"
proof -
  from assms obtain st where st: "forEach locs records initialAcc = Inr st"
    and d: "d = summarize records st"
    by (auto simp: aggregate_def split: sum.splits)
  have "sum_list (map (\<lambda>g. length (people g)) (locations d)) = headcount (locationGroups st)"
    by (simp add: d summarize_def headcount_def comp_def)
  also from forEach_headcount [OF st] have "\<dots> = length records"
    by (simp add: initialAcc_def headcount_def)
  finally show ?thesis .
qed

theorem aggregate_places_every_record_witness:
  "aggregate exampleTable exampleRecords = Inr exampleData
   \<and> sum_list (map (\<lambda>g. length (people g)) (locations exampleData)) = 3"
proof -
  have "length exampleRecords = 3" by (simp add: exampleRecords_def)
  with aggregate_places_every_record [OF example_run] example_run show ?thesis by simp
qed

section \<open>C2: the locations route and its category filter\<close>

text \<open>
  Claim C2, amended. The answer of the locations route is the whole sequence of groups
  when the category parameter is omitted, is the empty string or is \<^verbatim>\<open>all\<close>; for any
  other string it is the sequence of the groups that have a person with exactly this
  category, each with its people restricted to such persons; for a parameter that is no
  string it is empty. A category that no person has gives the empty sequence.
\<close>

theorem filterLocations_by_category:
  "filterLocations d category =
     (case category of
        Absent \<Rightarrow> locations d
      | Value c \<Rightarrow> if c = [] \<or> c = str ''all'' then locations d else matchingGroups d c
      | Structured \<Rightarrow> [])
   \<and> (\<forall>c. (\<forall>g\<in>set (locations d). \<forall>p\<in>set (people g). c \<notin> set (person.categories p))
          \<longrightarrow> matchingGroups d c = [])"
proof -
  have "filter (\<lambda>g. \<exists>p\<in>set (people g). False) (locations d) = []"
    by simp
  then show ?thesis
    by (auto simp: filterLocations_def Let_def matchingGroups_def filter_map_people
        filter_empty_conv split: query.splits)
qed

theorem filterLocations_by_category_witness:
  "filterLocations exampleData (Value (str ''Assault'')) =
     [\<lparr>lat = lat springfield, lng = lng springfield, location = str ''Springfield'',
       people = [makePerson record1 []]\<rparr>]
   \<and> filterLocations exampleData (Value (str ''Fraud'')) = []
   \<and> filterLocations exampleData (Value (str ''all'')) = locations exampleData
   \<and> filterLocations exampleData Absent = locations exampleData"
proof -
  have c: "person.categories (makePerson record1 []) = [str ''Theft'', str ''Assault'']"
    "person.categories (makePerson record2 []) = [str ''Theft'']"
    "person.categories (makePerson record3 []) = []"
    by (simp_all add: makePerson_def fields1 fields2 fields3 lists_examples)
  have "matchingGroups exampleData (str ''Assault'') =
     [\<lparr>lat = lat springfield, lng = lng springfield, location = str ''Springfield'',
       people = [makePerson record1 []]\<rparr>]"
    and "matchingGroups exampleData (str ''Fraud'') = []"
    by (simp_all add: matchingGroups_def exampleData_def c)
  then show ?thesis
    using filterLocations_by_category [of exampleData "Value (str ''Assault'')"]
      filterLocations_by_category [of exampleData "Value (str ''Fraud'')"]
      filterLocations_by_category [of exampleData "Value (str ''all'')"]
      filterLocations_by_category [of exampleData Absent]
    by simp
qed

text \<open>
  The claim as it is stated fails for the empty category string, which a request
  \<^verbatim>\<open>?category=\<close> sends: no person has an empty category, so the claim gives the empty
  sequence, and the route answers with all groups. (\<open>exampleData\<close> is the result of an
  aggregation, by \<open>example_run\<close>.)
\<close>

theorem empty_category_gives_everything:
  "filterLocations exampleData (Value []) = locations exampleData
   \<and> claimedLocations exampleData (Value []) = []
   \<and> locations exampleData \<noteq> []"
proof -
  have c: "person.categories (makePerson record1 []) = [str ''Theft'', str ''Assault'']"
    "person.categories (makePerson record2 []) = [str ''Theft'']"
    "person.categories (makePerson record3 []) = []"
    by (simp_all add: makePerson_def fields1 fields2 fields3 lists_examples)
  have "[] \<noteq> str ''all''" by (simp add: str_def)
  then show ?thesis
    by (simp add: filterLocations_def claimedLocations_def matchingGroups_def exampleData_def c)
qed

section \<open>C3: records share a group exactly when their rounded coordinates agree\<close>



section \<open>C4: the parser of the list-like fields\<close>

text \<open>
  Claim C4. The parser returns the empty sequence for an undefined or empty field. For a
  string it removes the characters \<^verbatim>\<open>[\<close>, \<^verbatim>\<open>]\<close> and \<^verbatim>\<open>'\<close>, splits the rest at
  its commas (the pieces, joined with commas again, are the stripped string, and no piece
  has a comma), trims every piece and keeps the pieces that are not empty, in their
  order. So a piece of the result is never empty, has none of the four characters and
  neither starts nor ends with white space. The function is total: no string makes it
  fail. The string \<^verbatim>\<open>['Theft', 'Assault']\<close> gives the two names.
\<close>

theorem pseudo_list_parser:
  "parsePseudoList None = []
   \<and> parsePseudoList (Some []) = []
   \<and> parsePseudoList (Some s) =
       filter (\<lambda>p. p \<noteq> []) (map trim (split_comma (filter (\<lambda>c. c \<notin> {91, 93, 39}) s)))
   \<and> joinComma (split_comma (filter (\<lambda>c. c \<notin> {91, 93, 39}) s)) = filter (\<lambda>c. c \<notin> {91, 93, 39}) s
   \<and> (\<forall>p\<in>set (split_comma (filter (\<lambda>c. c \<notin> {91, 93, 39}) s)). 44 \<notin> set p)
   \<and> (\<forall>p\<in>set (parsePseudoList field).
         p \<noteq> [] \<and> set p \<inter> {91, 93, 39, 44} = {}
         \<and> \<not> isWhiteSpace (hd p) \<and> \<not> isWhiteSpace (last p))
   \<and> parsePseudoList (Some (str ''['Theft', 'Assault']'')) = [str ''Theft'', str ''Assault'']"
proof -
  let ?strip = "filter (\<lambda>c. c \<notin> {91, 93, 39})"
  have 3: "parsePseudoList (Some x) = filter (\<lambda>p. p \<noteq> []) (map trim (split_comma (?strip x)))"
    for x
    by (cases x) (simp_all add: parsePseudoList_def present_def orEmpty_def trim_def)
  have 6: "p \<noteq> [] \<and> set p \<inter> {91, 93, 39, 44} = {}
         \<and> \<not> isWhiteSpace (hd p) \<and> \<not> isWhiteSpace (last p)"
    if "p \<in> set (parsePseudoList field)" for p
  proof (cases field)
    case None
    with that show ?thesis by (simp add: parsePseudoList_def present_def)
  next
    case (Some x)
    with that have "p \<in> set (filter (\<lambda>p. p \<noteq> []) (map trim (split_comma (?strip x))))"
      by (simp only: 3)
    then obtain q where q: "q \<in> set (split_comma (?strip x))"
      and p: "p = trim q" "p \<noteq> []"
      by auto
    from split_comma_subset [OF q] have "set q \<inter> {91, 93, 39} = {}" by auto
    with split_comma_no_comma [OF q] have "set q \<inter> {91, 93, 39, 44} = {}" by auto
    with trim_subset [of q] have "set p \<inter> {91, 93, 39, 44} = {}"
      unfolding p(1) by blast
    with p trim_ends [of q] show ?thesis by simp
  qed
  have 7: "parsePseudoList (Some (str ''['Theft', 'Assault']'')) = [str ''Theft'', str ''Assault'']"
    by (simp add: parsePseudoList_def present_def orEmpty_def trim_def str_def isWhiteSpace_def)
  show ?thesis
  proof (intro conjI ballI)
    show "parsePseudoList None = []" by (simp add: parsePseudoList_def present_def)
    show "parsePseudoList (Some []) = []" by (simp add: parsePseudoList_def present_def)
    show "parsePseudoList (Some s) = filter (\<lambda>p. p \<noteq> []) (map trim (split_comma (?strip s)))"
      by (rule 3)
    show "joinComma (split_comma (?strip s)) = ?strip s" by (rule join_split_comma)
    show "44 \<notin> set p" if "p \<in> set (split_comma (?strip s))" for p
      using that by (rule split_comma_no_comma)
    show "p \<noteq> []" "set p \<inter> {91, 93, 39, 44} = {}" "\<not> isWhiteSpace (hd p)"
      "\<not> isWhiteSpace (last p)" if "p \<in> set (parsePseudoList field)" for p
      using 6 [OF that] by blast+
    show "parsePseudoList (Some (str ''['Theft', 'Assault']'')) = [str ''Theft'', str ''Assault'']"
      by (rule 7)
  qed
qed

theorem pseudo_list_parser_witness:
  "parsePseudoList (Some (str ''[' Theft ',, 'Assault' ]'')) = [str ''Theft'', str ''Assault'']
   \<and> split_comma (str '' Theft ,, Assault '') = [str '' Theft '', [], str '' Assault '']
   \<and> str ''Theft'' \<noteq> [] \<and> set (str ''Theft'') \<inter> {91, 93, 39, 44} = {}
   \<and> \<not> isWhiteSpace (hd (str ''Theft'')) \<and> \<not> isWhiteSpace (last (str ''Theft''))"
proof -
  let ?field = "Some (str ''[' Theft ',, 'Assault' ]'')"
  have 1: "split_comma (str '' Theft ,, Assault '') = [str '' Theft '', [], str '' Assault '']"
    by (simp add: str_def)
  have 2: "filter (\<lambda>c. c \<notin> {91, 93, 39}) (str ''[' Theft ',, 'Assault' ]'')
      = str '' Theft ,, Assault ''"
    by (simp add: str_def)
  have 3: "trim (str '' Theft '') = str ''Theft''" "trim (str '' Assault '') = str ''Assault''"
    "trim [] = []"
    by (simp_all add: trim_def str_def isWhiteSpace_def)
  note parser = pseudo_list_parser [of "str ''[' Theft ',, 'Assault' ]''" ?field]
  from parser have "parsePseudoList ?field =
      filter (\<lambda>p. p \<noteq> [])
        (map trim (split_comma (filter (\<lambda>c. c \<notin> {91, 93, 39}) (str ''[' Theft ',, 'Assault' ]''))))"
    by (elim conjE)
  then have eq: "parsePseudoList ?field = [str ''Theft'', str ''Assault'']"
    unfolding 2 1 by (simp add: 3)
  from parser have "\<forall>p\<in>set (parsePseudoList ?field).
         p \<noteq> [] \<and> set p \<inter> {91, 93, 39, 44} = {}
         \<and> \<not> isWhiteSpace (hd p) \<and> \<not> isWhiteSpace (last p)"
    by (elim conjE)
  then have "str ''Theft'' \<noteq> [] \<and> set (str ''Theft'') \<inter> {91, 93, 39, 44} = {}
      \<and> \<not> isWhiteSpace (hd (str ''Theft'')) \<and> \<not> isWhiteSpace (last (str ''Theft''))"
    unfolding eq by (simp only: list.set ball_simps insert_iff empty_iff) blast
  with eq 1 show ?thesis by (intro conjI) simp_all
qed

section \<open>C8: the cache\<close>

text \<open>
  Claim C8. Once an access has returned the data (computing and storing them if the
  cache was empty), the cache holds them, and every sequence of requests after it,
  whatever their category filters and whatever has become of the files, is answered from
  these data and leaves the cache as it is; a further access returns the same data.
\<close>

theorem cache_unchanged_after_first_access:
  assumes "getData fs sv = (Inr d, sv')"
  shows "cachedData sv' = Some d
    \<and> (cachedData sv = None \<longrightarrow> processData fs = Inr d)
    \<and> (\<forall>fs' reqs. serve fs' reqs sv' = (map (respond d) reqs, sv')
          \<and> getData fs' (snd (serve fs' reqs sv')) = (Inr d, sv'))"
  using getData_stores [OF assms] by (simp add: serve_cached getData_cached)

theorem cache_unchanged_after_first_access_witness:
  "getData exampleFiles \<lparr>cachedData = None\<rparr> = (Inr exampleData, \<lparr>cachedData = Some exampleData\<rparr>)
   \<and> serve \<lparr>geocode_locations_txt = None, transformed_df_csv = None\<rparr>
         [GetLocations (Value (str ''Theft'')), GetStats, GetLocations Absent, GetIndex]
         \<lparr>cachedData = Some exampleData\<rparr>
       = (map (respond exampleData)
            [GetLocations (Value (str ''Theft'')), GetStats, GetLocations Absent, GetIndex],
          \<lparr>cachedData = Some exampleData\<rparr>)"
proof -
  have g: "getData exampleFiles \<lparr>cachedData = None\<rparr>
      = (Inr exampleData, \<lparr>cachedData = Some exampleData\<rparr>)"
    by (simp add: getData_def processData_def exampleFiles_def example_table example_run)
  from cache_unchanged_after_first_access [OF g] g show ?thesis by blast
qed

section \<open>C10: the age of a person\<close>

text \<open>
  Claim C10. The age of the person made from a record is \<^verbatim>\<open>null\<close> exactly when the age
  field of the record is undefined or empty; otherwise it is what \<^verbatim>\<open>parseFloat\<close> reads
  from the field, which is \<open>NaN\<close> for a string that does not parse as a number.
\<close>

theorem person_age_null_or_number:
  assumes "personOf r = Some p"
  shows "(age p = None \<longleftrightarrow> DEEPFACE_age r = None \<or> DEEPFACE_age r = Some [])
    \<and> (\<forall>s. DEEPFACE_age r = Some s \<and> s \<noteq> [] \<longrightarrow> age p = Some (parseFloat s))
    \<and> (\<forall>s. DEEPFACE_age r = Some s \<and> s \<noteq> [] \<and> \<not> hasNumberPrefix s \<longrightarrow> age p = Some NaN)"
  using assms
  by (auto simp: personOf_def makePerson_def present_def parseFloat_field_def
      parseFloat_NaN_iff split: option.splits if_splits)

theorem person_age_null_or_number_witness:
  "personOf record3 = Some (makePerson record3 [])
   \<and> DEEPFACE_age record3 = Some (str ''abc'') \<and> \<not> hasNumberPrefix (str ''abc'')
   \<and> age (makePerson record3 []) = Some NaN
   \<and> personOf emptyRecord = Some (makePerson emptyRecord [])
   \<and> age (makePerson emptyRecord []) = None"
proof -
  have p3: "personOf record3 = Some (makePerson record3 [])"
    by (rule example_persons) (simp add: exampleRecords_def)
  have p0: "personOf emptyRecord = Some (makePerson emptyRecord [])"
    by (simp add: personOf_def mugshotPath_def present_def emptyRecord_def)
  have n: "\<not> hasNumberPrefix (str ''abc'')"
    by (simp add: hasNumberPrefix_def str_def isWhiteSpace_def startsWith_def isDigit_def)
  have e: "str ''abc'' \<noteq> []" by simp
  from person_age_null_or_number [OF p3] fields3(4) n e
  have "age (makePerson record3 []) = Some NaN" by blast
  moreover from person_age_null_or_number [OF p0]
  have "age (makePerson emptyRecord []) = None" by (simp add: emptyRecord_def)
  ultimately show ?thesis using p3 p0 n fields3(4) by blast
qed

end
